theory Spec2Isabelle
  imports Complex_Main
begin

section \<open>Data model (src/types/index.ts)\<close>

text \<open>
  TypeScript \<open>number\<close> fields that only ever hold counts, nonces, block numbers and
  millisecond clock readings are integers here (\<open>int\<close>); the CLI fills the configuration
  through \<open>parseInt\<close>.  Quotients (\<open>tps\<close>, \<open>averageTPS\<close>, \<open>peakTPS\<close>,
  \<open>averageConfirmationTime\<close>) are exact rationals: the rounding of a double is not
  modelled, and every division of the source sits behind a guard that keeps the divisor
  positive.  Optional fields are \<open>option\<close>s.  Where two interfaces share a field name the
  second one carries a prefix.
\<close>

datatype tx_status = Pending | Success | Failed

record TransactionResult =
  hash :: string
  status :: tx_status
  timestamp :: int
  gasUsed :: "int option"
  gasPrice :: "string option"
  error :: "string option"
  confirmationTime :: "int option"
  blockNumber :: "int option"
  blockHash :: "string option"

text \<open>
  A value caught by a \<open>catch\<close> clause: either an instance of \<open>Error\<close> with its
  \<open>message\<close>, or anything else (\<open>error instanceof Error\<close> is false).
\<close>

datatype thrown = ErrorObject string | OtherValue

section \<open>The collaborators of TransactionSender\<close>

text \<open>
  The pure functions of the ethers library that the sender calls.  They are parameters of
  the model: \<open>parseEther\<close> and \<open>parseUnits(_, 'gwei')\<close> either return an amount in wei or
  throw, \<open>formatUnits(_, 'gwei')\<close> renders an amount.
\<close>

record ethers =
  parseEther :: "string \<Rightarrow> thrown + int"
  parseUnits_gwei :: "string \<Rightarrow> thrown + int"
  formatUnits_gwei :: "int \<Rightarrow> string"

text \<open>The \<open>ethers.TransactionRequest\<close> object literal built by \<open>sendTransaction\<close>.\<close>

record TransactionRequest =
  req_to :: string
  req_value :: int
  req_gasLimit :: int
  req_nonce :: int
  req_gasPrice :: "int option"

text \<open>The fields of a transaction receipt that the sender reads.\<close>

record TransactionReceipt =
  rcpt_status :: "int option"
  rcpt_gasUsed :: int
  rcpt_gasPrice :: "int option"
  rcpt_blockNumber :: int
  rcpt_blockHash :: string

text \<open>
  The \<open>TransactionResponse\<close> that \<open>wallet.sendTransaction\<close> resolves to: the hash of the
  transmitted transaction, which is the one field \<open>sendTransaction\<close> reads, and the gas
  price the transaction was transmitted with, which it does not read.
\<close>

record TransactionResponse =
  resp_hash :: string
  resp_gasPrice :: int

text \<open>
  What the outside world does during one call of \<open>sendTransaction\<close>: the clock reading
  taken on entry, the answer of \<open>provider.getFeeData()\<close> (a throw, or the possibly null
  \<open>gasPrice\<close>), the answer of \<open>wallet.sendTransaction\<close> (a throw, or the response for the
  transmitted transaction), and the instant at which the call's promise settles.
\<close>

record send_env =
  se_now :: int
  se_feeData :: "thrown + int option"
  se_sendTransaction :: "thrown + TransactionResponse"
  se_settledAt :: int

text \<open>
  One call of \<open>waitForConfirmation\<close>: the clock on entry, the answer of
  \<open>provider.waitForTransaction\<close> to the requested confirmations and timeout (a
  rejection, as when its timeout fires, or the possibly null receipt), and the clock when
  that answer has arrived.
\<close>

record wait_env =
  we_start :: int
  we_receipt :: "int \<Rightarrow> int \<Rightarrow> thrown + TransactionReceipt option"
  we_end :: int

text \<open>
  One call of \<open>getTransactionStatus\<close>: the answers of \<open>provider.getTransaction\<close> (a throw,
  null, or a transaction of which only the possibly null \<open>gasPrice\<close> is read) and of
  \<open>provider.getTransactionReceipt\<close>, and the clock when the result is built.
\<close>

record status_env =
  st_transaction :: "thrown + int option option"
  st_receipt :: "thrown + TransactionReceipt option"
  st_now :: int

section \<open>TransactionSender (src/lib/transaction-sender.ts)\<close>

text \<open>
  The only mutable field is \<open>nonce\<close>.  \<open>drawn\<close> is a ghost log, absent from the source:
  it records, in order, every value that \<open>this.nonce++\<close> handed to a request.
\<close>

record TransactionSender =
  nonce :: int
  drawn :: "int list"

text \<open>\<open>x || 0\<close> on a possibly null bigint.\<close>

definition or_zero :: "int option \<Rightarrow> int" where
  "or_zero g = (case g of None \<Rightarrow> 0 | Some v \<Rightarrow> v)"

text \<open>
  Truthiness of an optional string, as in \<open>if (gasPrice)\<close> and \<open>value || '0'\<close>:
  \<open>undefined\<close> and the empty string are false.
\<close>

definition truthy :: "string option \<Rightarrow> bool" where
  "truthy g = (g \<noteq> None \<and> g \<noteq> Some [])"

definition or_else :: "string option \<Rightarrow> string \<Rightarrow> string" where
  "or_else g d = (case g of Some (c # cs) \<Rightarrow> c # cs | _ \<Rightarrow> d)"

text \<open>\<open>error instanceof Error ? error.message : fallback\<close>.\<close>

definition error_text :: "string \<Rightarrow> thrown \<Rightarrow> string" where
  "error_text fallback e = (case e of ErrorObject m \<Rightarrow> m | OtherValue \<Rightarrow> fallback)"

text \<open>The object returned by the \<open>catch\<close> clause of \<open>sendTransaction\<close>.\<close>

definition send_failed :: "int \<Rightarrow> thrown \<Rightarrow> TransactionResult" where
  "send_failed startTime e =
     \<lparr>hash = [], status = Failed, timestamp = startTime, gasUsed = None, gasPrice = None,
      error = Some (error_text ''Unknown error'' e), confirmationTime = None,
      blockNumber = None, blockHash = None\<rparr>"

text \<open>The object returned at the end of the \<open>try\<close> block of \<open>sendTransaction\<close>.\<close>

definition send_pending :: "ethers \<Rightarrow> int \<Rightarrow> TransactionRequest \<Rightarrow> string \<Rightarrow> TransactionResult" where
  "send_pending lib startTime txRequest h =
     \<lparr>hash = h, status = Pending, timestamp = startTime, gasUsed = None,
      gasPrice = Some (formatUnits_gwei lib (or_zero (req_gasPrice txRequest))),
      error = None, confirmationTime = None, blockNumber = None, blockHash = None\<rparr>"

text \<open>
  The \<open>try\<close> block of \<open>sendTransaction\<close>, with a throw as \<open>Inl\<close>.  The properties of the
  object literal are evaluated in order, so \<open>ethers.parseEther(value)\<close> runs before
  \<open>this.nonce++\<close>: when it throws, the counter has not moved.  Under
  \<open>truthy gasPrice_arg\<close> the string handed to \<open>parseUnits\<close> is \<open>gasPrice_arg\<close> itself.
\<close>

definition sendTransaction_try ::
  "ethers \<Rightarrow> send_env \<Rightarrow> TransactionSender \<Rightarrow> string \<Rightarrow> string \<Rightarrow> int \<Rightarrow> string option
     \<Rightarrow> (thrown + TransactionResult) \<times> TransactionSender" where
  "sendTransaction_try lib env s to val gasLimit gasPrice_arg =
     (let startTime = se_now env in
      case parseEther lib val of
        Inl e \<Rightarrow> (Inl e, s)
      | Inr wei \<Rightarrow>
          let txRequest = \<lparr>req_to = to, req_value = wei, req_gasLimit = gasLimit,
                           req_nonce = nonce s, req_gasPrice = None\<rparr>;
              s' = s\<lparr>nonce := nonce s + 1, drawn := drawn s @ [nonce s]\<rparr>;
              priced =
                (if truthy gasPrice_arg
                 then (case parseUnits_gwei lib (or_else gasPrice_arg []) of
                         Inl e \<Rightarrow> Inl e
                       | Inr p \<Rightarrow> Inr (txRequest\<lparr>req_gasPrice := Some p\<rparr>))
                 else (case se_feeData env of
                         Inl e \<Rightarrow> Inl e
                       | Inr g \<Rightarrow> Inr (txRequest\<lparr>req_gasPrice := g\<rparr>)))
          in case priced of
               Inl e \<Rightarrow> (Inl e, s')
             | Inr txRequest' \<Rightarrow>
                 (case se_sendTransaction env of
                    Inl e \<Rightarrow> (Inl e, s')
                  | Inr tx \<Rightarrow> (Inr (send_pending lib startTime txRequest' (resp_hash tx)), s')))"

text \<open>\<open>sendTransaction\<close>: the \<open>try\<close> block under its \<open>catch\<close> clause.\<close>

definition sendTransaction ::
  "ethers \<Rightarrow> send_env \<Rightarrow> TransactionSender \<Rightarrow> string \<Rightarrow> string \<Rightarrow> int \<Rightarrow> string option
     \<Rightarrow> TransactionResult \<times> TransactionSender" where
  "sendTransaction lib env s to val gasLimit gasPrice_arg =
     (case sendTransaction_try lib env s to val gasLimit gasPrice_arg of
        (Inr r, s') \<Rightarrow> (r, s')
      | (Inl e, s') \<Rightarrow> (send_failed (se_now env) e, s'))"

text \<open>The objects returned by \<open>waitForConfirmation\<close>.\<close>

definition receipt_missing :: "string \<Rightarrow> int \<Rightarrow> TransactionResult" where
  "receipt_missing txHash startTime =
     \<lparr>hash = txHash, status = Failed, timestamp = startTime, gasUsed = None, gasPrice = None,
      error = Some ''Transaction receipt not found'', confirmationTime = None,
      blockNumber = None, blockHash = None\<rparr>"

definition receipt_status :: "TransactionReceipt \<Rightarrow> tx_status" where
  "receipt_status receipt = (if rcpt_status receipt = Some 1 then Success else Failed)"

definition waitForConfirmation ::
  "ethers \<Rightarrow> wait_env \<Rightarrow> string \<Rightarrow> int \<Rightarrow> int \<Rightarrow> TransactionResult" where
  "waitForConfirmation lib env txHash confirmations timeout =
     (let startTime = we_start env in
      case we_receipt env confirmations timeout of
        Inr None \<Rightarrow> receipt_missing txHash startTime
      | Inr (Some receipt) \<Rightarrow>
          \<lparr>hash = txHash, status = receipt_status receipt, timestamp = startTime,
           gasUsed = Some (rcpt_gasUsed receipt),
           gasPrice = Some (formatUnits_gwei lib (or_zero (rcpt_gasPrice receipt))),
           error = None, confirmationTime = Some (we_end env - startTime),
           blockNumber = Some (rcpt_blockNumber receipt),
           blockHash = Some (rcpt_blockHash receipt)\<rparr>
      | Inl e \<Rightarrow>
          \<lparr>hash = txHash, status = Failed, timestamp = startTime, gasUsed = None,
           gasPrice = None, error = Some (error_text ''Confirmation timeout'' e),
           confirmationTime = Some (we_end env - startTime),
           blockNumber = None, blockHash = None\<rparr>)"

text \<open>
  \<open>getTransactionStatus\<close>; \<open>None\<close> is the \<open>null\<close> it returns.  The receipt is only
  queried once the transaction is known.
\<close>

definition getTransactionStatus :: "ethers \<Rightarrow> status_env \<Rightarrow> string \<Rightarrow> TransactionResult option" where
  "getTransactionStatus lib env txHash =
     (let caught = (\<lambda>e. Some \<lparr>hash = txHash, status = Failed, timestamp = st_now env,
                               gasUsed = None, gasPrice = None,
                               error = Some (error_text ''Unknown error'' e),
                               confirmationTime = None, blockNumber = None, blockHash = None\<rparr>)
      in case st_transaction env of
           Inl e \<Rightarrow> caught e
         | Inr None \<Rightarrow> None
         | Inr (Some tx_gasPrice) \<Rightarrow>
             (case st_receipt env of
                Inl e \<Rightarrow> caught e
              | Inr None \<Rightarrow>
                  Some \<lparr>hash = txHash, status = Pending, timestamp = st_now env, gasUsed = None,
                        gasPrice = Some (formatUnits_gwei lib (or_zero tx_gasPrice)),
                        error = None, confirmationTime = None, blockNumber = None,
                        blockHash = None\<rparr>
              | Inr (Some receipt) \<Rightarrow>
                  Some \<lparr>hash = txHash, status = receipt_status receipt, timestamp = st_now env,
                        gasUsed = Some (rcpt_gasUsed receipt),
                        gasPrice = Some (formatUnits_gwei lib (or_zero (rcpt_gasPrice receipt))),
                        error = None, confirmationTime = None,
                        blockNumber = Some (rcpt_blockNumber receipt),
                        blockHash = Some (rcpt_blockHash receipt)\<rparr>))"


subsection \<open>Concurrent submission\<close>

text \<open>
  An \<open>async\<close> function runs synchronously up to its first \<open>await\<close>.  For
  \<open>sendTransaction\<close> that prefix covers \<open>Date.now()\<close>, the whole object literal (with
  \<open>this.nonce++\<close>) and, when a gas price was passed, \<open>parseUnits\<close> and the start of
  \<open>wallet.sendTransaction\<close>; otherwise it ends at \<open>await this.provider.getFeeData()\<close>.
  A promise returned by \<open>sendTransaction\<close> is therefore in one of three states.
\<close>

datatype send_task =
    Settled TransactionResult
  | AwaitFeeData TransactionRequest int
  | AwaitSend TransactionRequest int

text \<open>The synchronous prefix: everything \<open>sendTransaction\<close> does to the sender.\<close>

definition sendTransaction_start ::
  "ethers \<Rightarrow> send_env \<Rightarrow> TransactionSender \<Rightarrow> string \<Rightarrow> string \<Rightarrow> int \<Rightarrow> string option
     \<Rightarrow> send_task \<times> TransactionSender" where
  "sendTransaction_start lib env s to val gasLimit gasPrice_arg =
     (let startTime = se_now env in
      case parseEther lib val of
        Inl e \<Rightarrow> (Settled (send_failed startTime e), s)
      | Inr wei \<Rightarrow>
          let txRequest = \<lparr>req_to = to, req_value = wei, req_gasLimit = gasLimit,
                           req_nonce = nonce s, req_gasPrice = None\<rparr>;
              s' = s\<lparr>nonce := nonce s + 1, drawn := drawn s @ [nonce s]\<rparr>
          in if truthy gasPrice_arg
             then (case parseUnits_gwei lib (or_else gasPrice_arg []) of
                     Inl e \<Rightarrow> (Settled (send_failed startTime e), s')
                   | Inr p \<Rightarrow> (AwaitSend (txRequest\<lparr>req_gasPrice := Some p\<rparr>) startTime, s'))
             else (AwaitFeeData txRequest startTime, s'))"

text \<open>
  The rest of the call, once the provider has answered.  It reads and writes nothing of
  the sender, so the two suspensions of the fee-data path are taken in one step.
\<close>

definition sendTransaction_resume :: "ethers \<Rightarrow> send_env \<Rightarrow> send_task \<Rightarrow> TransactionResult" where
  "sendTransaction_resume lib env t =
     (let transmit = (\<lambda>txRequest startTime.
            case se_sendTransaction env of
              Inl e \<Rightarrow> send_failed startTime e
            | Inr tx \<Rightarrow> send_pending lib startTime txRequest (resp_hash tx))
      in case t of
           Settled r \<Rightarrow> r
         | AwaitSend txRequest startTime \<Rightarrow> transmit txRequest startTime
         | AwaitFeeData txRequest startTime \<Rightarrow>
             (case se_feeData env of
                Inl e \<Rightarrow> send_failed startTime e
              | Inr g \<Rightarrow> transmit (txRequest\<lparr>req_gasPrice := g\<rparr>) startTime))"

text \<open>
  \<open>sendBatchTransactions\<close>.  The \<open>for\<close> loop calls \<open>sendTransaction\<close> \<open>count\<close> times
  and pushes the promises; call \<open>i\<close> meets the environment \<open>envs i\<close>.  The promises then
  settle in the order of their settling instants, each writing its own slot, and
  \<open>Promise.all\<close> resolves to the results in call order once every slot is settled
  (\<open>None\<close>: it never resolves).
\<close>

definition start_calls ::
  "ethers \<Rightarrow> (nat \<Rightarrow> send_env) \<Rightarrow> TransactionSender \<Rightarrow> string \<Rightarrow> int \<Rightarrow> string \<Rightarrow> int
     \<Rightarrow> string option \<Rightarrow> send_task list \<times> TransactionSender" where
  "start_calls lib envs s to count val gasLimit gasPrice_arg =
     foldl (\<lambda>(promises, s) i.
              let (t, s') = sendTransaction_start lib (envs i) s to val gasLimit gasPrice_arg
              in (promises @ [t], s'))
           ([], s) [0..<nat count]"

definition completion_order :: "(nat \<Rightarrow> send_env) \<Rightarrow> nat \<Rightarrow> nat list" where
  "completion_order envs n = sort_key (\<lambda>i. se_settledAt (envs i)) [0..<n]"

definition settle_call ::
  "ethers \<Rightarrow> (nat \<Rightarrow> send_env) \<Rightarrow> send_task list \<Rightarrow> nat \<Rightarrow> send_task list" where
  "settle_call lib envs promises i =
     promises[i := Settled (sendTransaction_resume lib (envs i) (promises ! i))]"

fun settled_result :: "send_task \<Rightarrow> TransactionResult option" where
  "settled_result (Settled r) = Some r"
| "settled_result (AwaitFeeData txRequest startTime) = None"
| "settled_result (AwaitSend txRequest startTime) = None"

definition promise_all :: "send_task list \<Rightarrow> TransactionResult list option" where
  "promise_all promises = those (map settled_result promises)"

definition sendBatchTransactions ::
  "ethers \<Rightarrow> (nat \<Rightarrow> send_env) \<Rightarrow> TransactionSender \<Rightarrow> string \<Rightarrow> int \<Rightarrow> string \<Rightarrow> int
     \<Rightarrow> string option \<Rightarrow> TransactionResult list option \<times> TransactionSender" where
  "sendBatchTransactions lib envs s to count val gasLimit gasPrice_arg =
     (let (promises, s') = start_calls lib envs s to count val gasLimit gasPrice_arg;
          settled = foldl (settle_call lib envs) promises
                      (completion_order envs (length promises))
      in (promise_all settled, s'))"

text \<open>
  \<open>waitForBatchConfirmations\<close>: one \<open>waitForConfirmation\<close> per hash, started together.
  A wait touches no state of the sender, so the result array is the map over the hashes;
  hash \<open>i\<close> meets the environment \<open>envs i\<close>.
\<close>

definition waitForBatchConfirmations ::
  "ethers \<Rightarrow> (nat \<Rightarrow> wait_env) \<Rightarrow> string list \<Rightarrow> int \<Rightarrow> int \<Rightarrow> TransactionResult list" where
  "waitForBatchConfirmations lib envs txHashes confirmations timeout =
     map (\<lambda>i. waitForConfirmation lib (envs i) (txHashes ! i) confirmations timeout)
         [0..<length txHashes]"

text \<open>
  The sender after \<open>n\<close> calls of \<open>sendTransaction\<close> with the value string \<open>val\<close>, in
  closed form (used to state what a batch does to the counter).
\<close>

definition after_draws :: "ethers \<Rightarrow> string \<Rightarrow> nat \<Rightarrow> TransactionSender \<Rightarrow> TransactionSender" where
  "after_draws lib val n s =
     (if isl (parseEther lib val) then s
      else s\<lparr>nonce := nonce s + int n,
             drawn := drawn s @ map (\<lambda>k. nonce s + int k) [0..<n]\<rparr>)"

subsection \<open>A concrete library for the examples\<close>

text \<open>
  A small stand-in for the three ethers functions, used only to run the model on concrete
  inputs: amounts are non-empty strings of decimal digits, anything else makes the parser
  throw; an amount of wei is rendered in gwei with its fraction stripped of trailing zeros.
\<close>

definition parse_digits :: "nat \<Rightarrow> string \<Rightarrow> thrown + int" where
  "parse_digits decimals str =
     (if str \<noteq> [] \<and> list_all (\<lambda>c. c \<in> set ''0123456789'') str
      then Inr (int (foldl (\<lambda>n c. 10 * n + (of_char c - 48)) 0 str) * 10 ^ decimals)
      else Inl (ErrorObject ''invalid FixedNumber string value''))"

fun decimal :: "nat \<Rightarrow> string" where
  "decimal n =
     (if n < 10 then [''0123456789'' ! n]
      else decimal (n div 10) @ [''0123456789'' ! (n mod 10)])"

declare decimal.simps [simp del]

fun strip_zeros :: "string \<Rightarrow> string" where
  "strip_zeros [] = []"
| "strip_zeros (c # cs) =
     (case strip_zeros cs of [] \<Rightarrow> (if c = CHR ''0'' then [] else [c]) | r \<Rightarrow> c # r)"

definition render_gwei :: "int \<Rightarrow> string" where
  "render_gwei wei =
     (let n = nat \<bar>wei\<bar>;
          frac = strip_zeros (tl (decimal (10 ^ 9 + n mod 10 ^ 9)))
      in (if wei < 0 then ''-'' else []) @ decimal (n div 10 ^ 9) @ ''.'' @
         (if frac = [] then ''0'' else frac))"

definition plain_ethers :: ethers where
  "plain_ethers =
     \<lparr>parseEther = parse_digits 18, parseUnits_gwei = parse_digits 9,
      formatUnits_gwei = render_gwei\<rparr>"


section \<open>LoadTester (src/lib/load-tester.ts)\<close>

record LoadTestConfig =
  rpcUrl :: string
  privateKey :: string
  targetAddress :: string
  transactionCount :: int
  concurrency :: int
  cfg_gasPrice :: "string option"
  cfg_gasLimit :: "int option"
  cfg_value :: "string option"
  duration :: "int option"

record LoadTestMetrics =
  totalTransactions :: int
  successfulTransactions :: int
  failedTransactions :: int
  pendingTransactions :: int
  averageTPS :: rat
  peakTPS :: rat
  averageConfirmationTime :: rat
  totalDuration :: int
  startTime :: int
  endTime :: int
  gasUsedTotal :: int
  totalCost :: string
  blockNumbers :: "int list"
  uniqueBlocks :: int

record TPSSnapshot =
  snap_timestamp :: int
  tps :: rat
  successCount :: int
  failureCount :: int

text \<open>
  Of \<open>LoadTestOptions\<close> only \<open>realTimeStats\<close> changes what the tester does to its state
  (\<open>logLevel\<close> selects console output, the other fields are never read).
\<close>

record LoadTestOptions =
  realTimeStats :: bool

text \<open>
  What a run asks of the sender and of the timer, in order: a ghost log, absent from the
  source.
\<close>

datatype dispatch_event =
    SendBatch int
  | Sleep int
  | WaitBatch "string list" int int

text \<open>
  The fields of the class.  Three ghost fields follow them: \<open>monitoringInterval\<close> tells
  whether the interval timer set by \<open>startLoadTest\<close> is registered (in the source a
  local variable of that method), \<open>calls\<close> is the log of dispatch events and
  \<open>recorded\<close> keeps every snapshot ever pushed, also those the ring has dropped.
\<close>

record LoadTester =
  transactionSender :: TransactionSender
  config :: LoadTestConfig
  options :: LoadTestOptions
  metrics :: LoadTestMetrics
  tpsSnapshots :: "TPSSnapshot list"
  isRunning :: bool
  this_startTime :: int
  this_endTime :: int
  monitoringInterval :: bool
  calls :: "dispatch_event list"
  recorded :: "TPSSnapshot list"

text \<open>
  What the outside world does during one run of \<open>startLoadTest\<close>: the library, the
  floating-point cost estimate of \<open>calculateFinalMetrics\<close> (kept abstract), the clock at
  the start and at the end, the environment of call \<open>j\<close> of the batch that starts at loop
  index \<open>i\<close>, the clock readings of the interval callbacks that run while that batch and
  the pause after it are awaited, the environment of the wait for the \<open>j\<close>-th pending
  transaction, and what the listeners of \<open>completed\<close> do (\<open>None\<close>: they return).
  Every awaited call is answered; console output and the \<open>stats\<close> notification of the
  interval callback, which change no state, are left out.
\<close>

record world =
  ethers_lib :: ethers
  cost_text :: "int \<Rightarrow> string \<Rightarrow> string"
  start_clock :: int
  send_envs :: "int \<Rightarrow> nat \<Rightarrow> send_env"
  batch_ticks :: "int \<Rightarrow> int list"
  sleep_ticks :: "int \<Rightarrow> int list"
  wait_envs :: "nat \<Rightarrow> wait_env"
  end_clock :: int
  completed_listeners :: "thrown option"

definition createInitialMetrics :: LoadTestMetrics where
  "createInitialMetrics =
     \<lparr>totalTransactions = 0, successfulTransactions = 0, failedTransactions = 0,
      pendingTransactions = 0, averageTPS = 0, peakTPS = 0, averageConfirmationTime = 0,
      totalDuration = 0, startTime = 0, endTime = 0, gasUsedTotal = 0, totalCost = ''0'',
      blockNumbers = [], uniqueBlocks = 0\<rparr>"

text \<open>
  The constructor.  \<open>realTimeStats\<close> defaults to true; the argument is \<open>None\<close> when the
  caller's options do not carry the key.
\<close>

definition new_LoadTester :: "LoadTestConfig \<Rightarrow> bool option \<Rightarrow> LoadTester" where
  "new_LoadTester cfg realTimeStats_arg =
     \<lparr>transactionSender = \<lparr>nonce = 0, drawn = []\<rparr>, config = cfg,
      options = \<lparr>realTimeStats = (case realTimeStats_arg of None \<Rightarrow> True | Some b \<Rightarrow> b)\<rparr>,
      metrics = createInitialMetrics, tpsSnapshots = [], isRunning = False,
      this_startTime = 0, this_endTime = 0, monitoringInterval = False, calls = [],
      recorded = []\<rparr>"

text \<open>\<open>updateTpsSnapshot\<close>, at clock reading \<open>now\<close>.\<close>

definition updateTpsSnapshot :: "int \<Rightarrow> LoadTester \<Rightarrow> LoadTester" where
  "updateTpsSnapshot now this =
     (let timeElapsed = rat_of_int (now - this_startTime this) / 1000;
          currentTPS = (if timeElapsed > 0
                        then rat_of_int (successfulTransactions (metrics this)) / timeElapsed
                        else 0);
          snapshot = \<lparr>snap_timestamp = now, tps = currentTPS,
                      successCount = successfulTransactions (metrics this),
                      failureCount = failedTransactions (metrics this)\<rparr>;
          pushed = tpsSnapshots this @ [snapshot]
      in this\<lparr>tpsSnapshots := (if length pushed > 100 then tl pushed else pushed),
              recorded := recorded this @ [snapshot]\<rparr>)"

text \<open>
  The interval callbacks that run during one \<open>await\<close>, if the timer is registered.
\<close>

definition interval_callbacks :: "int list \<Rightarrow> LoadTester \<Rightarrow> LoadTester" where
  "interval_callbacks ticks this =
     (if monitoringInterval this then foldl (\<lambda>t now. updateTpsSnapshot now t) this ticks
      else this)"

text \<open>\<open>this.config.gasLimit || 21000\<close> and the timeout of the confirmation wait.\<close>

definition gasLimit_or_default :: "LoadTestConfig \<Rightarrow> int" where
  "gasLimit_or_default cfg =
     (case cfg_gasLimit cfg of None \<Rightarrow> 21000 | Some g \<Rightarrow> if g = 0 then 21000 else g)"

definition confirmation_timeout :: "LoadTestConfig \<Rightarrow> int" where
  "confirmation_timeout cfg =
     (case duration cfg of None \<Rightarrow> 300000 | Some d \<Rightarrow> if d = 0 then 300000 else d * 1000)"

text \<open>
  The counter updates of \<open>executeConcurrentTransactions\<close> after one batch.
\<close>

definition count_batch :: "int \<Rightarrow> TransactionResult list \<Rightarrow> LoadTestMetrics \<Rightarrow> LoadTestMetrics" where
  "count_batch currentBatchSize batchResults m =
     m\<lparr>totalTransactions := totalTransactions m + currentBatchSize,
       pendingTransactions := pendingTransactions m +
          int (length (filter (\<lambda>r. status r = Pending) batchResults)),
       failedTransactions := failedTransactions m +
          int (length (filter (\<lambda>r. status r = Failed) batchResults))\<rparr>"

text \<open>
  One turn of the \<open>for\<close> loop of \<open>executeConcurrentTransactions\<close> at loop index \<open>i\<close>;
  \<open>totalTxs\<close> is the local \<open>totalTransactions\<close>.  The interval callbacks that run while
  the batch is awaited see the counters before the batch is counted, those that run during
  the pause see them after.
\<close>

definition dispatch_batch ::
  "world \<Rightarrow> int \<Rightarrow> int \<Rightarrow> int \<Rightarrow> TransactionResult list \<times> LoadTester
     \<Rightarrow> (TransactionResult list \<times> LoadTester) option" where
  "dispatch_batch w batchSize totalTxs i state =
     (case state of (results, this) \<Rightarrow>
        (let currentBatchSize = min batchSize (totalTxs - i) in
         case sendBatchTransactions (ethers_lib w) (send_envs w i) (transactionSender this)
                (targetAddress (config this)) currentBatchSize
                (or_else (cfg_value (config this)) ''0'')
                (gasLimit_or_default (config this)) (cfg_gasPrice (config this)) of
           (None, sender') \<Rightarrow> None
         | (Some batchResults, sender') \<Rightarrow>
             (let sent = interval_callbacks (batch_ticks w i)
                           (this\<lparr>transactionSender := sender',
                                  calls := calls this @ [SendBatch currentBatchSize]\<rparr>);
                  counted = sent\<lparr>metrics := count_batch currentBatchSize batchResults
                                                (metrics sent)\<rparr>;
                  paused = (if i + batchSize < totalTxs
                            then interval_callbacks (sleep_ticks w i)
                                   (counted\<lparr>calls := calls counted @ [Sleep 100]\<rparr>)
                            else counted)
              in Some (results @ batchResults, paused))))"

text \<open>
  The loop itself.  With a batch size below one the index never passes a positive total
  and the loop runs forever; that is the value \<open>None\<close>.
\<close>

partial_function (option) dispatch_loop ::
  "world \<Rightarrow> int \<Rightarrow> int \<Rightarrow> int \<Rightarrow> TransactionResult list \<times> LoadTester
     \<Rightarrow> (TransactionResult list \<times> LoadTester) option" where
  "dispatch_loop w batchSize totalTxs i state =
     (if i < totalTxs then
        (case dispatch_batch w batchSize totalTxs i state of
           None \<Rightarrow> None
         | Some state' \<Rightarrow> dispatch_loop w batchSize totalTxs (i + batchSize) state')
      else Some state)"

definition executeConcurrentTransactions ::
  "world \<Rightarrow> LoadTester \<Rightarrow> (TransactionResult list \<times> LoadTester) option" where
  "executeConcurrentTransactions w this =
     dispatch_loop w (concurrency (config this)) (transactionCount (config this)) 0 ([], this)"

text \<open>
  The outcome of call \<open>j\<close> of the batch that starts at loop index \<open>i\<close>, under the
  configuration \<open>cfg\<close> (an outcome does not depend on the sender's counter), and the
  outcomes of the first \<open>n\<close> calls of that batch.
\<close>

definition send_outcome :: "world \<Rightarrow> LoadTestConfig \<Rightarrow> int \<Rightarrow> nat \<Rightarrow> TransactionResult" where
  "send_outcome w cfg i j =
     fst (sendTransaction (ethers_lib w) (send_envs w i j) \<lparr>nonce = 0, drawn = []\<rparr>
            (targetAddress cfg) (or_else (cfg_value cfg) ''0'') (gasLimit_or_default cfg)
            (cfg_gasPrice cfg))"

definition batch_outcomes :: "world \<Rightarrow> LoadTestConfig \<Rightarrow> int \<Rightarrow> nat \<Rightarrow> TransactionResult list" where
  "batch_outcomes w cfg i n = map (send_outcome w cfg i) [0..<n]"

subsection \<open>The dispatch plan in the words of the specification\<close>

text \<open>
  The total is divided into consecutive batches of size \<open>min(concurrency, remaining)\<close>;
  there is a pause of 100 ms after each batch except the last.
\<close>

definition spec_batch_sizes :: "int \<Rightarrow> int \<Rightarrow> int list" where
  "spec_batch_sizes n c = map (\<lambda>k. min c (n - int k * c)) [0..<nat ((n + c - 1) div c)]"

fun separate :: "'a \<Rightarrow> 'a list \<Rightarrow> 'a list" where
  "separate s [] = []"
| "separate s [x] = [x]"
| "separate s (x # y # ys) = x # s # separate s (y # ys)"

definition spec_dispatch_events :: "int \<Rightarrow> int \<Rightarrow> dispatch_event list" where
  "spec_dispatch_events n c = separate (Sleep 100) (map SendBatch (spec_batch_sizes n c))"

subsection \<open>Confirmation tracking, finalization, start and stop\<close>

text \<open>The body of the \<open>for\<close> loop of \<open>waitForAllConfirmations\<close>.\<close>

definition count_confirmation :: "LoadTestMetrics \<Rightarrow> TransactionResult \<Rightarrow> LoadTestMetrics" where
  "count_confirmation m result =
     (if status result = Success then
        m\<lparr>successfulTransactions := successfulTransactions m + 1,
          pendingTransactions := pendingTransactions m - 1,
          gasUsedTotal := (case gasUsed result of
                             Some g \<Rightarrow> if g \<noteq> 0 then gasUsedTotal m + g else gasUsedTotal m
                           | None \<Rightarrow> gasUsedTotal m),
          blockNumbers := (case blockNumber result of
                             Some b \<Rightarrow> if b \<noteq> 0 then blockNumbers m @ [b] else blockNumbers m
                           | None \<Rightarrow> blockNumbers m)\<rparr>
      else if status result = Failed then
        m\<lparr>failedTransactions := failedTransactions m + 1,
          pendingTransactions := pendingTransactions m - 1\<rparr>
      else m)"

definition waitForAllConfirmations ::
  "world \<Rightarrow> TransactionResult list \<Rightarrow> LoadTester \<Rightarrow> LoadTester" where
  "waitForAllConfirmations w results this =
     (let pendingTxs = filter (\<lambda>r. status r = Pending) results in
      if length pendingTxs = 0 then this
      else
        (let timeout = confirmation_timeout (config this);
             confirmationResults =
               waitForBatchConfirmations (ethers_lib w) (wait_envs w) (map hash pendingTxs) 1
                 timeout
         in this\<lparr>metrics := foldl count_confirmation (metrics this) confirmationResults,
                 calls := calls this @ [WaitBatch (map hash pendingTxs) 1 timeout]\<rparr>))"

text \<open>
  \<open>calculateFinalMetrics\<close>.  \<open>Math.max(...tps, 0)\<close> is the fold of \<open>max\<close> from zero.
\<close>

definition calculateFinalMetrics :: "world \<Rightarrow> LoadTester \<Rightarrow> LoadTester" where
  "calculateFinalMetrics w this =
     (let m1 = (metrics this)\<lparr>totalDuration := this_endTime this - this_startTime this\<rparr>;
          m2 = (if totalDuration m1 > 0
                then m1\<lparr>averageTPS := rat_of_int (successfulTransactions m1 * 1000) /
                                       rat_of_int (totalDuration m1)\<rparr>
                else m1);
          m3 = m2\<lparr>peakTPS := fold max (map tps (tpsSnapshots this)) 0\<rparr>;
          confirmationTimes = filter (\<lambda>time. time > 0)
                                (map (\<lambda>s. snap_timestamp s - this_startTime this)
                                     (tpsSnapshots this));
          m4 = (if length confirmationTimes > 0
                then m3\<lparr>averageConfirmationTime :=
                          rat_of_int (foldl (\<lambda>sum time. sum + time) 0 confirmationTimes) /
                          rat_of_int (int (length confirmationTimes))\<rparr>
                else m3);
          m5 = (if gasUsedTotal m4 > 0 \<and> truthy (cfg_gasPrice (config this))
                then m4\<lparr>totalCost := cost_text w (gasUsedTotal m4)
                                         (or_else (cfg_gasPrice (config this)) [])\<rparr>
                else m4)
      in this\<lparr>metrics := m5\<lparr>uniqueBlocks := int (length (remdups (blockNumbers m5)))\<rparr>\<rparr>)"

text \<open>
  \<open>startLoadTest\<close>.  A rejection of the returned promise is \<open>Inl\<close>.  Inside the \<open>try\<close>
  block only the listeners of \<open>completed\<close> can throw.
\<close>

definition startLoadTest ::
  "world \<Rightarrow> LoadTester \<Rightarrow> ((thrown + LoadTestMetrics) \<times> LoadTester) option" where
  "startLoadTest w this =
     (if isRunning this then Some (Inl (ErrorObject ''Load test is already running''), this)
      else
        (let started = this\<lparr>isRunning := True, this_startTime := start_clock w,
                            metrics := (metrics this)\<lparr>startTime := start_clock w\<rparr>\<rparr>;
             monitored = started\<lparr>monitoringInterval := realTimeStats (options started)\<rparr>
         in case executeConcurrentTransactions w monitored of
              None \<Rightarrow> None
            | Some (results, dispatched) \<Rightarrow>
                (let cleared = dispatched\<lparr>monitoringInterval := False\<rparr>;
                     confirmed = waitForAllConfirmations w results cleared;
                     ended = confirmed\<lparr>this_endTime := end_clock w,
                                       metrics := (metrics confirmed)\<lparr>endTime := end_clock w\<rparr>,
                                       isRunning := False\<rparr>;
                     final = calculateFinalMetrics w ended
                 in case completed_listeners w of
                      None \<Rightarrow> Some (Inr (metrics final), final)
                    | Some e \<Rightarrow> Some (Inl e, final\<lparr>isRunning := False\<rparr>))))"

text \<open>
  What a call hands to its caller at the call site: an exception thrown there, or a
  returned value.  The value returned by a call of an \<open>async\<close> method is a promise,
  rejected (\<open>Inl\<close>) or fulfilled (\<open>Inr\<close>) once the method body has completed; a \<open>throw\<close> in
  the body, at its first statement as well, rejects that promise and throws nothing at
  the call site.
\<close>

datatype 'a completion = Throws thrown | Returns 'a

definition async_call :: "(thrown + 'a) \<Rightarrow> (thrown + 'a) completion" where
  "async_call body = Returns body"

text \<open>
  A call of \<open>startLoadTest\<close> as its caller sees it: the method is declared
  \<open>async startLoadTest(): Promise<LoadTestMetrics>\<close>.
\<close>

definition startLoadTest_call ::
  "world \<Rightarrow> LoadTester \<Rightarrow> ((thrown + LoadTestMetrics) completion \<times> LoadTester) option" where
  "startLoadTest_call w this =
     (case startLoadTest w this of
        None \<Rightarrow> None
      | Some (outcome, this') \<Rightarrow> Some (async_call outcome, this'))"

text \<open>
  \<open>stopLoadTest\<close> at clock reading \<open>now\<close>; \<open>stopped_listeners\<close> is what the listeners of
  \<open>stopped\<close> do.
\<close>

definition stopLoadTest :: "int \<Rightarrow> thrown option \<Rightarrow> LoadTester \<Rightarrow> (thrown + unit) \<times> LoadTester" where
  "stopLoadTest now stopped_listeners this =
     (if \<not> isRunning this then (Inr (), this)
      else
        (let stopped = this\<lparr>isRunning := False, this_endTime := now,
                            metrics := (metrics this)\<lparr>endTime := now\<rparr>\<rparr>
         in case stopped_listeners of
              None \<Rightarrow> (Inr (), stopped)
            | Some e \<Rightarrow> (Inl e, stopped)))"

definition getMetrics :: "LoadTester \<Rightarrow> LoadTestMetrics" where
  "getMetrics this = metrics this"

definition getTpsSnapshots :: "LoadTester \<Rightarrow> TPSSnapshot list" where
  "getTpsSnapshots this = tpsSnapshots this"

text \<open>
  Two measures used to state the counter invariants: the part of \<open>totalTransactions\<close>
  not covered by the three outcome counters, and the number of pending outcomes in a
  result list.
\<close>

definition unaccounted :: "LoadTestMetrics \<Rightarrow> int" where
  "unaccounted m =
     totalTransactions m -
     (successfulTransactions m + failedTransactions m + pendingTransactions m)"

definition pending_in :: "TransactionResult list \<Rightarrow> int" where
  "pending_in rs = int (length (filter (\<lambda>r. status r = Pending) rs))"

text \<open>The snapshot that \<open>updateTpsSnapshot\<close> pushes at clock reading \<open>now\<close>.\<close>

definition snapshot_at :: "LoadTester \<Rightarrow> int \<Rightarrow> TPSSnapshot" where
  "snapshot_at this now =
     \<lparr>snap_timestamp = now,
      tps = (if rat_of_int (now - this_startTime this) / 1000 > 0
             then rat_of_int (successfulTransactions (metrics this)) /
                  (rat_of_int (now - this_startTime this) / 1000)
             else 0),
      successCount = successfulTransactions (metrics this),
      failureCount = failedTransactions (metrics this)\<rparr>"

text \<open>
  The ring holds the latest hundred of the snapshots ever pushed (all of them while there
  are at most a hundred).
\<close>

definition ring_is_latest :: "LoadTester \<Rightarrow> bool" where
  "ring_is_latest this =
     (tpsSnapshots this = drop (length (recorded this) - 100) (recorded this))"

text \<open>What \<open>stopLoadTest\<close> writes when a run is in progress.\<close>

definition stopped_at :: "int \<Rightarrow> LoadTester \<Rightarrow> LoadTester" where
  "stopped_at now this =
     this\<lparr>isRunning := False, this_endTime := now,
          metrics := (metrics this)\<lparr>endTime := now\<rparr>\<rparr>"

subsection \<open>A concrete run for the examples\<close>

text \<open>
  Twenty-five transfers of zero ether at 20 gwei, ten at a time.  Every transmission is
  accepted, later calls of a batch settle first, one interval callback runs during each
  batch, and every receipt reports success.
\<close>

definition example_config :: LoadTestConfig where
  "example_config =
     \<lparr>rpcUrl = ''http://127.0.0.1:8545'', privateKey = ''0x01'', targetAddress = ''0x02'',
      transactionCount = 25, concurrency = 10, cfg_gasPrice = Some ''20'',
      cfg_gasLimit = Some 21000, cfg_value = Some ''0'', duration = Some 300\<rparr>"

definition example_world :: world where
  "example_world =
     \<lparr>ethers_lib = plain_ethers,
      cost_text = (\<lambda>gas price. ''0.010500''),
      start_clock = 1000,
      send_envs = (\<lambda>i j. \<lparr>se_now = 1000 + 200 * i, se_feeData = Inr (Some 20000000000),
                             se_sendTransaction =
                               Inr \<lparr>resp_hash = ''0x'' @ decimal (nat i + j), resp_gasPrice = 20000000000\<rparr>,
                             se_settledAt = 1100 + 200 * i - int j\<rparr>),
      batch_ticks = (\<lambda>i. [1050 + 200 * i]),
      sleep_ticks = (\<lambda>i. []),
      wait_envs = (\<lambda>j. \<lparr>we_start = 1500,
                          we_receipt = (\<lambda>confirmations timeout.
                             Inr (Some \<lparr>rcpt_status = Some 1, rcpt_gasUsed = 21000,
                                        rcpt_gasPrice = Some 20000000000,
                                        rcpt_blockNumber = 100 + int (j div 10),
                                        rcpt_blockHash = ''0xb1''\<rparr>)),
                          we_end = 13500\<rparr>),
      end_clock = 13500,
      completed_listeners = None\<rparr>"

subsection \<open>Two runs of one tester, for the examples\<close>

text \<open>
  A tester configured for a single transfer.  In \<open>quick_world\<close> the transfer is accepted
  and confirmed within a second, before the interval timer fires.  In \<open>refusing_world\<close>
  the transmission is refused at once and the run ends in the millisecond it began.  In
  \<open>slow_world\<close> the endpoint takes 101 seconds to accept the transfer, so the interval
  callback runs 101 times, once per second, while the batch is awaited.
\<close>

definition single_config :: LoadTestConfig where
  "single_config =
     \<lparr>rpcUrl = ''http://127.0.0.1:8545'', privateKey = ''0x01'', targetAddress = ''0x02'',
      transactionCount = 1, concurrency = 1, cfg_gasPrice = Some ''20'',
      cfg_gasLimit = Some 21000, cfg_value = Some ''0'', duration = Some 300\<rparr>"

definition mined :: TransactionReceipt where
  "mined = \<lparr>rcpt_status = Some 1, rcpt_gasUsed = 21000, rcpt_gasPrice = Some 20000000000,
            rcpt_blockNumber = 100, rcpt_blockHash = ''0xb1''\<rparr>"

definition quick_world :: world where
  "quick_world =
     \<lparr>ethers_lib = plain_ethers,
      cost_text = (\<lambda>gas price. ''0.000420''),
      start_clock = 1000,
      send_envs = (\<lambda>i j. \<lparr>se_now = 1000, se_feeData = Inr (Some 20000000000),
                             se_sendTransaction =
                               Inr \<lparr>resp_hash = ''0xa1'', resp_gasPrice = 20000000000\<rparr>,
                             se_settledAt = 1100\<rparr>),
      batch_ticks = (\<lambda>i. []),
      sleep_ticks = (\<lambda>i. []),
      wait_envs = (\<lambda>j. \<lparr>we_start = 1100, we_receipt = (\<lambda>confirmations timeout. Inr (Some mined)),
                          we_end = 2000\<rparr>),
      end_clock = 2000,
      completed_listeners = None\<rparr>"

definition refusing_world :: world where
  "refusing_world =
     \<lparr>ethers_lib = plain_ethers,
      cost_text = (\<lambda>gas price. ''0.000420''),
      start_clock = 5000,
      send_envs = (\<lambda>i j. \<lparr>se_now = 5000, se_feeData = Inr (Some 20000000000),
                             se_sendTransaction = Inl (ErrorObject ''connect ECONNREFUSED''),
                             se_settledAt = 5000\<rparr>),
      batch_ticks = (\<lambda>i. []),
      sleep_ticks = (\<lambda>i. []),
      wait_envs = (\<lambda>j. \<lparr>we_start = 5000, we_receipt = (\<lambda>confirmations timeout. Inr None),
                          we_end = 5000\<rparr>),
      end_clock = 5000,
      completed_listeners = None\<rparr>"

definition slow_world :: world where
  "slow_world =
     \<lparr>ethers_lib = plain_ethers,
      cost_text = (\<lambda>gas price. ''0.000840''),
      start_clock = 10000,
      send_envs = (\<lambda>i j. \<lparr>se_now = 10000, se_feeData = Inr (Some 20000000000),
                             se_sendTransaction =
                               Inr \<lparr>resp_hash = ''0xa2'', resp_gasPrice = 20000000000\<rparr>,
                             se_settledAt = 111500\<rparr>),
      batch_ticks = (\<lambda>i. map (\<lambda>k. 10000 + 1000 * int k) [1..<102]),
      sleep_ticks = (\<lambda>i. []),
      wait_envs = (\<lambda>j. \<lparr>we_start = 111500,
                          we_receipt = (\<lambda>confirmations timeout. Inr (Some mined)),
                          we_end = 112000\<rparr>),
      end_clock = 112000,
      completed_listeners = None\<rparr>"

section \<open>Properties of the sender\<close>

text \<open>The synchronous prefix followed by the resumption is the whole call.\<close>

lemma sendTransaction_phases:
  "sendTransaction lib env s to val gasLimit gp =
     (sendTransaction_resume lib env (fst (sendTransaction_start lib env s to val gasLimit gp)),
      snd (sendTransaction_start lib env s to val gasLimit gp))"
  by (simp add: sendTransaction_def sendTransaction_try_def sendTransaction_start_def
      sendTransaction_resume_def Let_def split: sum.splits)

text \<open>
  Claim C3, as the code has it.  \<open>sendTransaction\<close> returns an outcome on every input and
  under every answer of the library and the provider.  Its \<open>try\<close> block throws exactly
  when \<open>parseEther\<close>, \<open>parseUnits\<close>, \<open>getFeeData\<close> or \<open>wallet.sendTransaction\<close> throws;
  the outcome is then \<open>failed\<close> with the empty hash, and its error description is the
  message of the thrown \<open>Error\<close>, or \<open>Unknown error\<close> when the thrown value is no
  \<open>Error\<close>: it is non-empty unless an \<open>Error\<close> with an empty message was thrown.
  Otherwise the outcome is \<open>pending\<close> with the hash of the wallet's response and the
  rendering of the gas price placed in the request: the caller's price, else the price of
  the fee data, else zero when the fee data carry none.  Nothing of the response but its
  hash is read, so the reported price is the price the transaction was transmitted with
  exactly when its rendering agrees with that of the request's price, as it does when
  the wallet transmits at the price the request names.
\<close>

theorem sendTransaction_outcome:
  fixes lib env s to val gasLimit gp
  defines "r \<equiv> fst (sendTransaction lib env s to val gasLimit gp)"
  defines "attempt \<equiv> fst (sendTransaction_try lib env s to val gasLimit gp)"
  defines "placed \<equiv> (if truthy gp then projr (parseUnits_gwei lib (or_else gp []))
                       else or_zero (projr (se_feeData env)))"
  shows "(isl attempt \<longleftrightarrow>
            isl (parseEther lib val) \<or>
            (if truthy gp then isl (parseUnits_gwei lib (or_else gp [])) else isl (se_feeData env)) \<or>
            isl (se_sendTransaction env)) \<and>
         (\<forall>e. attempt = Inl e \<longrightarrow>
            status r = Failed \<and> hash r = [] \<and> timestamp r = se_now env \<and>
            error r = Some (error_text ''Unknown error'' e) \<and>
            (e \<noteq> ErrorObject [] \<longrightarrow> error r \<noteq> Some [])) \<and>
         (\<forall>p. attempt = Inr p \<longrightarrow>
            r = p \<and> status r = Pending \<and> timestamp r = se_now env \<and> error r = None \<and>
            gasPrice r = Some (formatUnits_gwei lib placed) \<and>
            (\<exists>tx. se_sendTransaction env = Inr tx \<and> hash r = resp_hash tx \<and>
                  (gasPrice r = Some (formatUnits_gwei lib (resp_gasPrice tx)) \<longleftrightarrow>
                   formatUnits_gwei lib (resp_gasPrice tx) = formatUnits_gwei lib placed)))"
  unfolding r_def attempt_def placed_def
  by (auto simp: sendTransaction_def sendTransaction_try_def Let_def send_failed_def send_pending_def
      error_text_def or_zero_def split: sum.splits thrown.splits)

text \<open>
  The theorem at two concrete calls: one whose transmission is refused with a value that
  is no \<open>Error\<close>, one that is accepted and transmitted at the 20 gwei of the fee data.
\<close>

theorem sendTransaction_outcome_witness:
  "fst (sendTransaction_try plain_ethers
          \<lparr>se_now = 1000, se_feeData = Inr (Some 20000000000),
           se_sendTransaction = Inl OtherValue, se_settledAt = 1040\<rparr>
          \<lparr>nonce = 7, drawn = []\<rparr> ''0x01'' ''0'' 21000 None) = Inl OtherValue \<and>
   status (fst (sendTransaction plain_ethers
          \<lparr>se_now = 1000, se_feeData = Inr (Some 20000000000),
           se_sendTransaction = Inl OtherValue, se_settledAt = 1040\<rparr>
          \<lparr>nonce = 7, drawn = []\<rparr> ''0x01'' ''0'' 21000 None)) = Failed \<and>
   error (fst (sendTransaction plain_ethers
          \<lparr>se_now = 1000, se_feeData = Inr (Some 20000000000),
           se_sendTransaction = Inl OtherValue, se_settledAt = 1040\<rparr>
          \<lparr>nonce = 7, drawn = []\<rparr> ''0x01'' ''0'' 21000 None)) = Some ''Unknown error'' \<and>
   (\<exists>p. fst (sendTransaction_try plain_ethers
          \<lparr>se_now = 1000, se_feeData = Inr (Some 20000000000),
           se_sendTransaction = Inr \<lparr>resp_hash = ''0xabc'', resp_gasPrice = 20000000000\<rparr>,
           se_settledAt = 1040\<rparr>
          \<lparr>nonce = 7, drawn = []\<rparr> ''0x01'' ''0'' 21000 None) = Inr p) \<and>
   status (fst (sendTransaction plain_ethers
          \<lparr>se_now = 1000, se_feeData = Inr (Some 20000000000),
           se_sendTransaction = Inr \<lparr>resp_hash = ''0xabc'', resp_gasPrice = 20000000000\<rparr>,
           se_settledAt = 1040\<rparr>
          \<lparr>nonce = 7, drawn = []\<rparr> ''0x01'' ''0'' 21000 None)) = Pending \<and>
   hash (fst (sendTransaction plain_ethers
          \<lparr>se_now = 1000, se_feeData = Inr (Some 20000000000),
           se_sendTransaction = Inr \<lparr>resp_hash = ''0xabc'', resp_gasPrice = 20000000000\<rparr>,
           se_settledAt = 1040\<rparr>
          \<lparr>nonce = 7, drawn = []\<rparr> ''0x01'' ''0'' 21000 None)) = ''0xabc'' \<and>
   gasPrice (fst (sendTransaction plain_ethers
          \<lparr>se_now = 1000, se_feeData = Inr (Some 20000000000),
           se_sendTransaction = Inr \<lparr>resp_hash = ''0xabc'', resp_gasPrice = 20000000000\<rparr>,
           se_settledAt = 1040\<rparr>
          \<lparr>nonce = 7, drawn = []\<rparr> ''0x01'' ''0'' 21000 None)) = Some ''20.0''"
proof -
  let ?refused = "\<lparr>se_now = 1000, se_feeData = Inr (Some 20000000000),
           se_sendTransaction = Inl OtherValue, se_settledAt = 1040\<rparr>"
  let ?accepted = "\<lparr>se_now = 1000, se_feeData = Inr (Some 20000000000),
           se_sendTransaction = Inr \<lparr>resp_hash = ''0xabc'', resp_gasPrice = 20000000000\<rparr>,
           se_settledAt = 1040\<rparr>"
  let ?s = "\<lparr>nonce = 7, drawn = []\<rparr>"
  have parse: "parseEther plain_ethers ''0'' = Inr 0"
    by (simp add: plain_ethers_def parse_digits_def)
  have a: "fst (sendTransaction_try plain_ethers ?refused ?s ''0x01'' ''0'' 21000 None) = Inl OtherValue"
    by (simp add: sendTransaction_try_def parse truthy_def)
  have b: "\<exists>p. fst (sendTransaction_try plain_ethers ?accepted ?s ''0x01'' ''0'' 21000 None) = Inr p"
    by (simp add: sendTransaction_try_def parse truthy_def)
  have c: "formatUnits_gwei plain_ethers 20000000000 = ''20.0''"
    by (simp add: plain_ethers_def render_gwei_def decimal.simps)
  have t: "\<not> truthy None"
    by (simp add: truthy_def)
  from sendTransaction_outcome [of plain_ethers ?refused ?s "''0x01''" "''0''" 21000 None] a
  have "status (fst (sendTransaction plain_ethers ?refused ?s ''0x01'' ''0'' 21000 None)) = Failed \<and>
        error (fst (sendTransaction plain_ethers ?refused ?s ''0x01'' ''0'' 21000 None)) =
          Some ''Unknown error''"
    by (simp add: error_text_def)
  moreover
  from sendTransaction_outcome [of plain_ethers ?accepted ?s "''0x01''" "''0''" 21000 None] b
  have "status (fst (sendTransaction plain_ethers ?accepted ?s ''0x01'' ''0'' 21000 None)) = Pending \<and>
        hash (fst (sendTransaction plain_ethers ?accepted ?s ''0x01'' ''0'' 21000 None)) = ''0xabc'' \<and>
        gasPrice (fst (sendTransaction plain_ethers ?accepted ?s ''0x01'' ''0'' 21000 None)) =
          Some ''20.0''"
    by (auto simp: t c or_zero_def)
  ultimately show ?thesis using a b by simp
qed

text \<open>
  Claim C3 as stated departs from the code at two points.  It asks for a non-empty error
  description on every failure: a transmission rejected with an \<open>Error\<close> whose message is
  empty yields the empty description.  It asks for the effective gas price used on
  every success: when the caller names no price and the fee data carry none, the request
  goes out without a price, the wallet chooses one (20 gwei below), and the outcome
  reports \<open>0.0\<close>, the rendering of zero.
\<close>

theorem sendTransaction_empty_error_and_unpriced_report:
  "status (fst (sendTransaction plain_ethers
          \<lparr>se_now = 1000, se_feeData = Inr (Some 20000000000),
           se_sendTransaction = Inl (ErrorObject []), se_settledAt = 1040\<rparr>
          \<lparr>nonce = 7, drawn = []\<rparr> ''0x01'' ''0'' 21000 None)) = Failed \<and>
   error (fst (sendTransaction plain_ethers
          \<lparr>se_now = 1000, se_feeData = Inr (Some 20000000000),
           se_sendTransaction = Inl (ErrorObject []), se_settledAt = 1040\<rparr>
          \<lparr>nonce = 7, drawn = []\<rparr> ''0x01'' ''0'' 21000 None)) = Some [] \<and>
   status (fst (sendTransaction plain_ethers
          \<lparr>se_now = 1000, se_feeData = Inr None,
           se_sendTransaction = Inr \<lparr>resp_hash = ''0xabc'', resp_gasPrice = 20000000000\<rparr>,
           se_settledAt = 1040\<rparr>
          \<lparr>nonce = 7, drawn = []\<rparr> ''0x01'' ''0'' 21000 None)) = Pending \<and>
   hash (fst (sendTransaction plain_ethers
          \<lparr>se_now = 1000, se_feeData = Inr None,
           se_sendTransaction = Inr \<lparr>resp_hash = ''0xabc'', resp_gasPrice = 20000000000\<rparr>,
           se_settledAt = 1040\<rparr>
          \<lparr>nonce = 7, drawn = []\<rparr> ''0x01'' ''0'' 21000 None)) = ''0xabc'' \<and>
   gasPrice (fst (sendTransaction plain_ethers
          \<lparr>se_now = 1000, se_feeData = Inr None,
           se_sendTransaction = Inr \<lparr>resp_hash = ''0xabc'', resp_gasPrice = 20000000000\<rparr>,
           se_settledAt = 1040\<rparr>
          \<lparr>nonce = 7, drawn = []\<rparr> ''0x01'' ''0'' 21000 None)) = Some ''0.0'' \<and>
   formatUnits_gwei plain_ethers 20000000000 = ''20.0''"
proof -
  let ?rejected = "\<lparr>se_now = 1000, se_feeData = Inr (Some 20000000000),
           se_sendTransaction = Inl (ErrorObject []), se_settledAt = 1040\<rparr>"
  let ?unpriced = "\<lparr>se_now = 1000, se_feeData = Inr None,
           se_sendTransaction = Inr \<lparr>resp_hash = ''0xabc'', resp_gasPrice = 20000000000\<rparr>,
           se_settledAt = 1040\<rparr>"
  let ?s = "\<lparr>nonce = 7, drawn = []\<rparr>"
  have parse: "parseEther plain_ethers ''0'' = Inr 0"
    by (simp add: plain_ethers_def parse_digits_def)
  have zero: "formatUnits_gwei plain_ethers 0 = ''0.0''"
    by (simp add: plain_ethers_def render_gwei_def decimal.simps)
  have twenty: "formatUnits_gwei plain_ethers 20000000000 = ''20.0''"
    by (simp add: plain_ethers_def render_gwei_def decimal.simps)
  have "sendTransaction plain_ethers ?rejected ?s ''0x01'' ''0'' 21000 None =
          (send_failed 1000 (ErrorObject []), \<lparr>nonce = 8, drawn = [7]\<rparr>)"
    by (simp add: sendTransaction_def sendTransaction_try_def parse truthy_def)
  hence a: "status (fst (sendTransaction plain_ethers ?rejected ?s ''0x01'' ''0'' 21000 None)) = Failed \<and>
            error (fst (sendTransaction plain_ethers ?rejected ?s ''0x01'' ''0'' 21000 None)) = Some []"
    by (simp add: send_failed_def error_text_def)
  have "fst (sendTransaction plain_ethers ?unpriced ?s ''0x01'' ''0'' 21000 None) =
          send_pending plain_ethers 1000
            \<lparr>req_to = ''0x01'', req_value = 0, req_gasLimit = 21000, req_nonce = 7,
             req_gasPrice = None\<rparr> ''0xabc''"
    by (simp add: sendTransaction_def sendTransaction_try_def parse truthy_def)
  hence b: "status (fst (sendTransaction plain_ethers ?unpriced ?s ''0x01'' ''0'' 21000 None)) = Pending \<and>
            hash (fst (sendTransaction plain_ethers ?unpriced ?s ''0x01'' ''0'' 21000 None)) = ''0xabc'' \<and>
            gasPrice (fst (sendTransaction plain_ethers ?unpriced ?s ''0x01'' ''0'' 21000 None)) =
              Some ''0.0''"
    by (simp add: send_pending_def or_zero_def zero)
  from a b twenty show ?thesis by simp
qed

text \<open>
  Claim C7.  When \<open>provider.waitForTransaction\<close> rejects, as it does when its timeout
  fires, \<open>waitForConfirmation\<close> returns \<open>failed\<close> with the elapsed wait as
  \<open>confirmationTime\<close> (the timeout itself when the rejection arrives that long after the
  start) and with the rejection's message, or \<open>Confirmation timeout\<close>, as error.  When a
  receipt arrives the status follows the receipt's execution status and the outcome
  carries gas used, gas price, block number, block hash and the elapsed wait.
\<close>

theorem waitForConfirmation_outcome:
  fixes lib env txHash confirmations timeout
  defines "r \<equiv> waitForConfirmation lib env txHash confirmations timeout"
  shows "(\<forall>e. we_receipt env confirmations timeout = Inl e \<longrightarrow>
            status r = Failed \<and> hash r = txHash \<and> timestamp r = we_start env \<and>
            confirmationTime r = Some (we_end env - we_start env) \<and>
            (we_end env = we_start env + timeout \<longrightarrow> confirmationTime r = Some timeout) \<and>
            error r = Some (error_text ''Confirmation timeout'' e)) \<and>
         (\<forall>receipt. we_receipt env confirmations timeout = Inr (Some receipt) \<longrightarrow>
            status r = (if rcpt_status receipt = Some 1 then Success else Failed) \<and>
            hash r = txHash \<and> timestamp r = we_start env \<and> error r = None \<and>
            gasUsed r = Some (rcpt_gasUsed receipt) \<and>
            gasPrice r = Some (formatUnits_gwei lib (or_zero (rcpt_gasPrice receipt))) \<and>
            blockNumber r = Some (rcpt_blockNumber receipt) \<and>
            blockHash r = Some (rcpt_blockHash receipt) \<and>
            confirmationTime r = Some (we_end env - we_start env))"
  unfolding r_def
  by (simp add: waitForConfirmation_def receipt_status_def Let_def)

text \<open>A wait of 300000 ms that the provider ends with its timeout error.\<close>

theorem waitForConfirmation_outcome_witness:
  "we_receipt \<lparr>we_start = 5000, we_receipt = (\<lambda>c t. Inl (ErrorObject ''timeout'')),
               we_end = 305000\<rparr> 1 300000 = Inl (ErrorObject ''timeout'') \<and>
   we_end \<lparr>we_start = 5000, we_receipt = (\<lambda>c t. Inl (ErrorObject ''timeout'')),
           we_end = 305000\<rparr> =
   we_start \<lparr>we_start = 5000, we_receipt = (\<lambda>c t. Inl (ErrorObject ''timeout'')),
             we_end = 305000\<rparr> + 300000 \<and>
   status (waitForConfirmation plain_ethers
             \<lparr>we_start = 5000, we_receipt = (\<lambda>c t. Inl (ErrorObject ''timeout'')),
              we_end = 305000\<rparr> ''0xabc'' 1 300000) = Failed \<and>
   confirmationTime (waitForConfirmation plain_ethers
             \<lparr>we_start = 5000, we_receipt = (\<lambda>c t. Inl (ErrorObject ''timeout'')),
              we_end = 305000\<rparr> ''0xabc'' 1 300000) = Some 300000 \<and>
   error (waitForConfirmation plain_ethers
             \<lparr>we_start = 5000, we_receipt = (\<lambda>c t. Inl (ErrorObject ''timeout'')),
              we_end = 305000\<rparr> ''0xabc'' 1 300000) = Some ''timeout''"
  using waitForConfirmation_outcome
    [of "\<lparr>we_start = 5000, we_receipt = (\<lambda>c t. Inl (ErrorObject ''timeout'')), we_end = 305000\<rparr>"
        1 300000 plain_ethers "''0xabc''"]
  by (simp add: error_text_def)

text \<open>
  Claim C10.  \<open>getTransactionStatus\<close> returns null exactly when the provider knows no such
  transaction.  When either provider query throws, the result is a \<open>failed\<close> outcome with
  the queried hash and the error text, never null.
\<close>

theorem getTransactionStatus_null_and_throw:
  "(getTransactionStatus lib env txHash = None \<longleftrightarrow> st_transaction env = Inr None) \<and>
   (\<forall>e. st_transaction env = Inl e \<or>
         ((\<exists>tx. st_transaction env = Inr (Some tx)) \<and> st_receipt env = Inl e) \<longrightarrow>
        (\<exists>r. getTransactionStatus lib env txHash = Some r \<and> status r = Failed \<and>
             hash r = txHash \<and> error r = Some (error_text ''Unknown error'' e) \<and>
             timestamp r = st_now env))"
  by (auto simp: getTransactionStatus_def Let_def split: sum.splits option.splits)

text \<open>A known transaction whose receipt query throws.\<close>

theorem getTransactionStatus_null_and_throw_witness:
  "st_receipt \<lparr>st_transaction = Inr (Some (Some 20000000000)),
               st_receipt = Inl (ErrorObject ''socket hang up''), st_now = 9000\<rparr> =
     Inl (ErrorObject ''socket hang up'') \<and>
   (\<exists>r. getTransactionStatus plain_ethers
           \<lparr>st_transaction = Inr (Some (Some 20000000000)),
            st_receipt = Inl (ErrorObject ''socket hang up''), st_now = 9000\<rparr> ''0xabc'' = Some r \<and>
        status r = Failed \<and> hash r = ''0xabc'' \<and> error r = Some ''socket hang up'')"
  using getTransactionStatus_null_and_throw
    [of plain_ethers "\<lparr>st_transaction = Inr (Some (Some 20000000000)),
            st_receipt = Inl (ErrorObject ''socket hang up''), st_now = 9000\<rparr>" "''0xabc''"]
  by (auto simp: error_text_def)

section \<open>Properties of a batch\<close>

text \<open>
  The outcome of a call does not depend on the sender's counter, and the sender after a
  call has drawn one nonce unless the value string failed to parse.
\<close>

lemma sendTransaction_result_any_sender:
  "fst (sendTransaction lib env s to val gasLimit gp) =
   fst (sendTransaction lib env s' to val gasLimit gp)"
  by (simp add: sendTransaction_def sendTransaction_try_def Let_def send_pending_def
      split: sum.splits)

lemma sendTransaction_sender:
  "snd (sendTransaction lib env s to val gasLimit gp) =
     (if isl (parseEther lib val) then s
      else s\<lparr>nonce := nonce s + 1, drawn := drawn s @ [nonce s]\<rparr>)"
  by (simp add: sendTransaction_def sendTransaction_try_def Let_def split: sum.splits)

lemma resume_start:
  "sendTransaction_resume lib env (fst (sendTransaction_start lib env s to val gasLimit gp)) =
   fst (sendTransaction lib env s to val gasLimit gp)"
  by (simp add: sendTransaction_phases)

lemma start_sender:
  "snd (sendTransaction_start lib env s to val gasLimit gp) =
     (if isl (parseEther lib val) then s
      else s\<lparr>nonce := nonce s + 1, drawn := drawn s @ [nonce s]\<rparr>)"
  using sendTransaction_sender [of lib env s to val gasLimit gp]
  by (simp add: sendTransaction_phases)

lemma after_draws_0: "after_draws lib val 0 s = s"
  by (simp add: after_draws_def)

lemma after_draws_Suc:
  "snd (sendTransaction_start lib env (after_draws lib val n s) to val gasLimit gp) =
   after_draws lib val (Suc n) s"
  by (simp add: start_sender after_draws_def add.assoc)

lemma start_calls_upto:
  "foldl (\<lambda>(promises, s) i.
              let (t, s') = sendTransaction_start lib (envs i) s to val gasLimit gp
              in (promises @ [t], s'))
         ([], s) [0..<n] =
   (map (\<lambda>i. fst (sendTransaction_start lib (envs i) (after_draws lib val i s) to val gasLimit gp))
        [0..<n],
    after_draws lib val n s)"
proof (induction n)
  case 0
  show ?case by (simp add: after_draws_0)
next
  case (Suc n)
  then show ?case
    by (simp add: case_prod_beta Let_def after_draws_Suc)
qed

lemma start_calls_eq:
  "start_calls lib envs s to count val gasLimit gp =
   (map (\<lambda>i. fst (sendTransaction_start lib (envs i) (after_draws lib val i s) to val gasLimit gp))
        [0..<nat count],
    after_draws lib val (nat count) s)"
  unfolding start_calls_def by (rule start_calls_upto)

lemma resume_Settled: "sendTransaction_resume lib env (Settled r) = r"
  by (simp add: sendTransaction_resume_def)

lemma length_settle_calls:
  "length (foldl (settle_call lib envs) promises order) = length promises"
  by (induction order arbitrary: promises) (simp_all add: settle_call_def)

lemma nth_settle_calls:
  "k < length promises \<Longrightarrow>
   foldl (settle_call lib envs) promises order ! k =
     (if k \<in> set order then Settled (sendTransaction_resume lib (envs k) (promises ! k))
      else promises ! k)"
proof (induction order arbitrary: promises)
  case Nil
  then show ?case by simp
next
  case (Cons i order)
  have len: "k < length (settle_call lib envs promises i)"
    using Cons.prems by (simp add: settle_call_def)
  show ?case
  proof (cases "k = i")
    case True
    then show ?thesis
      using Cons.IH [OF len] Cons.prems
      by (simp add: settle_call_def resume_Settled)
  next
    case False
    then show ?thesis
      using Cons.IH [OF len] Cons.prems
      by (simp add: settle_call_def)
  qed
qed

lemma settle_calls_all:
  assumes "set order = {0..<length promises}"
  shows "foldl (settle_call lib envs) promises order =
         map (\<lambda>k. Settled (sendTransaction_resume lib (envs k) (promises ! k)))
             [0..<length promises]"
  by (rule nth_equalityI) (simp_all add: length_settle_calls nth_settle_calls assms)

lemma promise_all_Settled: "promise_all (map (\<lambda>k. Settled (f k)) ks) = Some (map f ks)"
  by (induction ks) (simp_all add: promise_all_def)

lemma sendBatchTransactions_eq:
  "sendBatchTransactions lib envs s to count val gasLimit gp =
   (Some (map (\<lambda>i. fst (sendTransaction lib (envs i) s to val gasLimit gp)) [0..<nat count]),
    after_draws lib val (nat count) s)"
proof -
  let ?ts = "map (\<lambda>i. fst (sendTransaction_start lib (envs i) (after_draws lib val i s) to val gasLimit gp))
        [0..<nat count]"
  have "set (completion_order envs (length ?ts)) = {0..<length ?ts}"
    by (simp add: completion_order_def)
  then have "foldl (settle_call lib envs) ?ts (completion_order envs (length ?ts)) =
      map (\<lambda>k. Settled (sendTransaction_resume lib (envs k) (?ts ! k))) [0..<length ?ts]"
    by (rule settle_calls_all)
  also have "\<dots> = map (\<lambda>k. Settled (fst (sendTransaction lib (envs k) s to val gasLimit gp)))
      [0..<nat count]"
    using sendTransaction_result_any_sender [of lib _ _ to val gasLimit gp s]
    by (simp add: resume_start)
  finally show ?thesis
    by (simp add: sendBatchTransactions_def start_calls_eq promise_all_Settled)
qed

section \<open>Properties of the dispatch loop\<close>

lemma after_draws_add:
  "after_draws lib val m (after_draws lib val n s) = after_draws lib val (n + m) s"
proof -
  have "map (\<lambda>k. nonce s + int k) [0..<n] @ map (\<lambda>k. nonce s + int n + int k) [0..<m] =
        map (\<lambda>k. nonce s + int k) [0..<n + m]"
    by (induction m) (simp_all add: add.assoc)
  then show ?thesis
    by (simp add: after_draws_def add.assoc)
qed

lemma updateTpsSnapshot_frame:
  "metrics (updateTpsSnapshot now t) = metrics t"
  "config (updateTpsSnapshot now t) = config t"
  "options (updateTpsSnapshot now t) = options t"
  "transactionSender (updateTpsSnapshot now t) = transactionSender t"
  "isRunning (updateTpsSnapshot now t) = isRunning t"
  "this_startTime (updateTpsSnapshot now t) = this_startTime t"
  "this_endTime (updateTpsSnapshot now t) = this_endTime t"
  "monitoringInterval (updateTpsSnapshot now t) = monitoringInterval t"
  "calls (updateTpsSnapshot now t) = calls t"
  by (simp_all add: updateTpsSnapshot_def Let_def)

lemma interval_callbacks_keeps:
  assumes "\<And>now t. f (updateTpsSnapshot now t) = f t"
  shows "f (interval_callbacks ticks this) = f this"
proof -
  have "f (foldl (\<lambda>t now. updateTpsSnapshot now t) this ticks) = f this"
    by (induction ticks arbitrary: this) (simp_all add: assms)
  then show ?thesis
    by (simp add: interval_callbacks_def)
qed

lemmas interval_callbacks_frame =
  interval_callbacks_keeps [of metrics, OF updateTpsSnapshot_frame(1)]
  interval_callbacks_keeps [of config, OF updateTpsSnapshot_frame(2)]
  interval_callbacks_keeps [of options, OF updateTpsSnapshot_frame(3)]
  interval_callbacks_keeps [of transactionSender, OF updateTpsSnapshot_frame(4)]
  interval_callbacks_keeps [of isRunning, OF updateTpsSnapshot_frame(5)]
  interval_callbacks_keeps [of this_startTime, OF updateTpsSnapshot_frame(6)]
  interval_callbacks_keeps [of this_endTime, OF updateTpsSnapshot_frame(7)]
  interval_callbacks_keeps [of monitoringInterval, OF updateTpsSnapshot_frame(8)]
  interval_callbacks_keeps [of calls, OF updateTpsSnapshot_frame(9)]

lemma batch_outcomes_sender:
  "map (\<lambda>j. fst (sendTransaction (ethers_lib w) (send_envs w i j) s
                     (targetAddress cfg) (or_else (cfg_value cfg) ''0'')
                     (gasLimit_or_default cfg) (cfg_gasPrice cfg)))
         [0..<n] = batch_outcomes w cfg i n"
  using sendTransaction_result_any_sender [of "ethers_lib w" _ s]
  by (simp add: batch_outcomes_def send_outcome_def)

lemma dispatch_batch_eq:
  "dispatch_batch w b T i (results, this) =
     (let n = min b (T - i);
          R = batch_outcomes w (config this) i (nat n);
          sent = interval_callbacks (batch_ticks w i)
                   (this\<lparr>transactionSender :=
                            after_draws (ethers_lib w) (or_else (cfg_value (config this)) ''0'')
                              (nat n) (transactionSender this),
                          calls := calls this @ [SendBatch n]\<rparr>);
          counted = sent\<lparr>metrics := count_batch n R (metrics sent)\<rparr>;
          paused = (if i + b < T
                    then interval_callbacks (sleep_ticks w i)
                           (counted\<lparr>calls := calls counted @ [Sleep 100]\<rparr>)
                    else counted)
      in Some (results @ R, paused))"
  by (simp add: dispatch_batch_def sendBatchTransactions_eq Let_def batch_outcomes_sender)

lemma dispatch_batch_Some: "\<exists>st'. dispatch_batch w b T i st = Some st'"
  by (cases st) (simp add: dispatch_batch_eq Let_def)

lemma dispatch_loop_rule:
  assumes b: "1 \<le> b"
    and stop: "\<And>i st. \<not> i < T \<Longrightarrow> Q i st st"
    and step: "\<And>i st st' out. i < T \<Longrightarrow> dispatch_batch w b T i st = Some st' \<Longrightarrow>
                 Q (i + b) st' out \<Longrightarrow> Q i st out"
  shows "\<exists>out. dispatch_loop w b T i st = Some out \<and> Q i st out"
proof (induction "nat (T - i)" arbitrary: i st rule: less_induct)
  case less
  show ?case
  proof (cases "i < T")
    case False
    then show ?thesis
      by (subst dispatch_loop.simps) (simp add: stop)
  next
    case True
    obtain st' where st': "dispatch_batch w b T i st = Some st'"
      using dispatch_batch_Some by blast
    have "nat (T - (i + b)) < nat (T - i)"
      using b True by simp
    from less [OF this] obtain out
      where out: "dispatch_loop w b T (i + b) st' = Some out" "Q (i + b) st' out"
      by blast
    have "dispatch_loop w b T i st = Some out"
      using True st' out(1) by (subst dispatch_loop.simps) simp
    moreover have "Q i st out"
      using step [OF True st' out(2)] .
    ultimately show ?thesis by blast
  qed
qed

lemma dispatch_batch_fields:
  assumes "dispatch_batch w b T i (results, this) = Some (results', this')"
  shows "results' = results @ batch_outcomes w (config this) i (nat (min b (T - i)))"
    and "config this' = config this"
    and "options this' = options this"
    and "isRunning this' = isRunning this"
    and "this_startTime this' = this_startTime this"
    and "this_endTime this' = this_endTime this"
    and "monitoringInterval this' = monitoringInterval this"
    and "transactionSender this' =
           after_draws (ethers_lib w) (or_else (cfg_value (config this)) ''0'')
             (nat (min b (T - i))) (transactionSender this)"
    and "metrics this' =
           count_batch (min b (T - i)) (batch_outcomes w (config this) i (nat (min b (T - i))))
             (metrics this)"
    and "calls this' =
           calls this @ SendBatch (min b (T - i)) # (if i + b < T then [Sleep 100] else [])"
proof -
  let ?sent = "interval_callbacks (batch_ticks w i)
                 (this\<lparr>transactionSender :=
                          after_draws (ethers_lib w) (or_else (cfg_value (config this)) ''0'')
                            (nat (min b (T - i))) (transactionSender this),
                        calls := calls this @ [SendBatch (min b (T - i))]\<rparr>)"
  let ?counted = "?sent\<lparr>metrics := count_batch (min b (T - i))
                     (batch_outcomes w (config this) i (nat (min b (T - i)))) (metrics ?sent)\<rparr>"
  from assms have r: "results' = results @ batch_outcomes w (config this) i (nat (min b (T - i)))"
    and t: "this' = (if i + b < T
                     then interval_callbacks (sleep_ticks w i)
                            (?counted\<lparr>calls := calls ?counted @ [Sleep 100]\<rparr>)
                     else ?counted)"
    by (simp_all add: dispatch_batch_eq Let_def)
  show "results' = results @ batch_outcomes w (config this) i (nat (min b (T - i)))"
    by (rule r)
  show "config this' = config this"
    by (simp add: t interval_callbacks_frame)
  show "options this' = options this"
    by (simp add: t interval_callbacks_frame)
  show "isRunning this' = isRunning this"
    by (simp add: t interval_callbacks_frame)
  show "this_startTime this' = this_startTime this"
    by (simp add: t interval_callbacks_frame)
  show "this_endTime this' = this_endTime this"
    by (simp add: t interval_callbacks_frame)
  show "monitoringInterval this' = monitoringInterval this"
    by (simp add: t interval_callbacks_frame)
  show "transactionSender this' =
           after_draws (ethers_lib w) (or_else (cfg_value (config this)) ''0'')
             (nat (min b (T - i))) (transactionSender this)"
    by (simp add: t interval_callbacks_frame)
  show "metrics this' =
           count_batch (min b (T - i)) (batch_outcomes w (config this) i (nat (min b (T - i))))
             (metrics this)"
    by (simp add: t interval_callbacks_frame)
  show "calls this' =
           calls this @ SendBatch (min b (T - i)) # (if i + b < T then [Sleep 100] else [])"
    by (simp add: t interval_callbacks_frame)
qed

lemma send_outcome_status:
  "status (send_outcome w cfg i j) = Pending \<or> status (send_outcome w cfg i j) = Failed"
  by (simp add: send_outcome_def sendTransaction_def sendTransaction_try_def Let_def
      send_failed_def send_pending_def split: sum.splits)

lemma batch_outcomes_length: "length (batch_outcomes w cfg i n) = n"
  by (simp add: batch_outcomes_def)

lemma batch_outcomes_split:
  "length (filter (\<lambda>r. status r = Pending) (batch_outcomes w cfg i n)) +
   length (filter (\<lambda>r. status r = Failed) (batch_outcomes w cfg i n)) = n"
proof -
  have "filter (\<lambda>r. status r = Failed) (batch_outcomes w cfg i n) =
        filter (\<lambda>r. \<not> status r = Pending) (batch_outcomes w cfg i n)"
    using send_outcome_status [of w cfg i]
    by (intro filter_cong) (auto simp: batch_outcomes_def)
  then show ?thesis
    by (simp add: sum_length_filter_compl batch_outcomes_length)
qed

lemma dispatch_loop_counters:
  assumes "1 \<le> b"
  shows "\<exists>results' this'. dispatch_loop w b T i (results, this) = Some (results', this') \<and>
           unaccounted (metrics this') = unaccounted (metrics this) \<and>
           pendingTransactions (metrics this') - pending_in results' =
             pendingTransactions (metrics this) - pending_in results \<and>
           successfulTransactions (metrics this') = successfulTransactions (metrics this)"
proof -
  let ?Q = "\<lambda>(i::int) (st :: TransactionResult list \<times> LoadTester) out.
      unaccounted (metrics (snd out)) = unaccounted (metrics (snd st)) \<and>
      pendingTransactions (metrics (snd out)) - pending_in (fst out) =
        pendingTransactions (metrics (snd st)) - pending_in (fst st) \<and>
      successfulTransactions (metrics (snd out)) = successfulTransactions (metrics (snd st))"
  have "\<exists>out. dispatch_loop w b T i (results, this) = Some out \<and> ?Q i (results, this) out"
  proof (rule dispatch_loop_rule [OF assms, where Q = ?Q])
    fix i st
    show "?Q i st st" by simp
  next
    fix i st st' out
    assume lt: "i < T" and step: "dispatch_batch w b T i st = Some st'" and ih: "?Q (i + b) st' out"
    obtain rs t where st: "st = (rs, t)" by (cases st)
    obtain rs' t' where st': "st' = (rs', t')" by (cases st')
    note f = dispatch_batch_fields [OF step [unfolded st st']]
    have pos: "0 \<le> min b (T - i)" using assms lt by simp
    have "int (length (filter (\<lambda>r. status r = Pending)
                   (batch_outcomes w (config t) i (nat (min b (T - i)))))) +
          int (length (filter (\<lambda>r. status r = Failed)
                   (batch_outcomes w (config t) i (nat (min b (T - i)))))) =
          int (nat (min b (T - i)))"
      using batch_outcomes_split [of w "config t" i "nat (min b (T - i))"]
      by (simp only: of_nat_add [symmetric])
    then have "unaccounted (metrics t') = unaccounted (metrics t)"
      using pos by (simp add: f(9) unaccounted_def count_batch_def)
    moreover have "pendingTransactions (metrics t') - pending_in rs' =
        pendingTransactions (metrics t) - pending_in rs"
      by (simp add: f(9) f(1) pending_in_def count_batch_def)
    moreover have "successfulTransactions (metrics t') = successfulTransactions (metrics t)"
      by (simp add: f(9) count_batch_def)
    ultimately show "?Q i st out"
      using ih by (simp add: st st')
  qed
  then show ?thesis by auto
qed

lemma count_confirmations:
  assumes "\<forall>r \<in> set rs. status r \<noteq> Pending"
  shows "pendingTransactions (foldl count_confirmation m rs) =
           pendingTransactions m - int (length rs) \<and>
         unaccounted (foldl count_confirmation m rs) = unaccounted m"
  using assms
proof (induction rs arbitrary: m)
  case Nil
  then show ?case by simp
next
  case (Cons r rs)
  have r: "status r = Success \<or> status r = Failed"
    using Cons.prems by (cases "status r") auto
  have "pendingTransactions (count_confirmation m r) = pendingTransactions m - 1"
    and "unaccounted (count_confirmation m r) = unaccounted m"
    using r by (auto simp: count_confirmation_def unaccounted_def)
  then show ?case
    using Cons.IH [of "count_confirmation m r"] Cons.prems by simp
qed

lemma waitForConfirmation_status:
  "status (waitForConfirmation lib env h c t) \<noteq> Pending"
  by (simp add: waitForConfirmation_def Let_def receipt_missing_def receipt_status_def
      split: sum.splits option.splits)

lemma waitForAllConfirmations_counters:
  "pendingTransactions (metrics (waitForAllConfirmations w results this)) =
     pendingTransactions (metrics this) - pending_in results \<and>
   unaccounted (metrics (waitForAllConfirmations w results this)) = unaccounted (metrics this)"
proof (cases "filter (\<lambda>r. status r = Pending) results = []")
  case True
  then show ?thesis
    by (simp add: waitForAllConfirmations_def pending_in_def)
next
  case False
  let ?rs = "waitForBatchConfirmations (ethers_lib w) (wait_envs w)
               (map hash (filter (\<lambda>r. status r = Pending) results)) 1
               (confirmation_timeout (config this))"
  have "\<forall>r \<in> set ?rs. status r \<noteq> Pending"
    by (auto simp: waitForBatchConfirmations_def waitForConfirmation_status)
  from count_confirmations [OF this, of "metrics this"]
  show ?thesis
    using False
    by (simp add: waitForAllConfirmations_def Let_def pending_in_def
        waitForBatchConfirmations_def)
qed

lemma calculateFinalMetrics_counters:
  "totalTransactions (metrics (calculateFinalMetrics w this)) = totalTransactions (metrics this)"
  "successfulTransactions (metrics (calculateFinalMetrics w this)) =
     successfulTransactions (metrics this)"
  "failedTransactions (metrics (calculateFinalMetrics w this)) = failedTransactions (metrics this)"
  "pendingTransactions (metrics (calculateFinalMetrics w this)) =
     pendingTransactions (metrics this)"
  by (simp_all add: calculateFinalMetrics_def Let_def)

lemma executeConcurrentTransactions_counters:
  assumes "1 \<le> concurrency (config this)"
  shows "\<exists>results dispatched.
           executeConcurrentTransactions w this = Some (results, dispatched) \<and>
           unaccounted (metrics dispatched) = unaccounted (metrics this) \<and>
           pendingTransactions (metrics dispatched) =
             pendingTransactions (metrics this) + pending_in results \<and>
           successfulTransactions (metrics dispatched) = successfulTransactions (metrics this)"
  using dispatch_loop_counters [OF assms, of w "transactionCount (config this)" 0 "[]" this]
  by (auto simp: executeConcurrentTransactions_def pending_in_def)


lemma spec_batch_sizes_nonpos:
  assumes "r \<le> 0" "1 \<le> c"
  shows "spec_batch_sizes r c = []"
proof -
  have "(r + c - 1) div c \<le> 0"
  proof (cases "r + c - 1 < 0")
    case True
    then show ?thesis
      using assms by (simp add: pos_imp_zdiv_neg_iff less_imp_le)
  next
    case False
    then show ?thesis
      using assms by (simp add: div_pos_pos_trivial)
  qed
  then show ?thesis
    by (simp add: spec_batch_sizes_def)
qed

lemma spec_batch_sizes_pos:
  assumes "0 < r" "1 \<le> c"
  shows "spec_batch_sizes r c = min c r # spec_batch_sizes (r - c) c"
proof -
  have "r + c - 1 = (r - 1) + c" by simp
  then have d: "(r + c - 1) div c = (r - 1) div c + 1"
    using assms by (simp only: div_add_self2)
  have nn: "0 \<le> (r - 1) div c"
    using assms by (simp add: pos_imp_zdiv_nonneg_iff)
  have n: "nat ((r + c - 1) div c) = Suc (nat ((r - 1) div c))"
    using d nn by simp
  have u: "[0..<Suc (nat ((r - 1) div c))] = 0 # map Suc [0..<nat ((r - 1) div c)]"
    by (simp add: upt_conv_Cons map_Suc_upt)
  have m: "nat ((r - c + c - 1) div c) = nat ((r - 1) div c)" by simp
  have "map (\<lambda>k. min c (r - int k * c)) [0..<nat ((r + c - 1) div c)] =
        min c r # map (\<lambda>k. min c (r - int (Suc k) * c)) [0..<nat ((r - 1) div c)]"
    by (simp only: n u list.map map_map o_def) simp
  also have "(\<lambda>k. min c (r - int (Suc k) * c)) = (\<lambda>k. min c (r - c - int k * c))"
    by (simp add: algebra_simps)
  finally show ?thesis
    by (simp only: spec_batch_sizes_def m)
qed

lemma separate_Cons: "separate s (x # xs) = x # (if xs = [] then [] else s # separate s xs)"
  by (cases xs) simp_all

lemma spec_dispatch_events_nonpos:
  "r \<le> 0 \<Longrightarrow> 1 \<le> c \<Longrightarrow> spec_dispatch_events r c = []"
  by (simp add: spec_dispatch_events_def spec_batch_sizes_nonpos)

lemma spec_dispatch_events_pos:
  assumes "0 < r" "1 \<le> c"
  shows "spec_dispatch_events r c =
           SendBatch (min c r) # (if c < r then Sleep 100 # spec_dispatch_events (r - c) c else [])"
proof (cases "c < r")
  case True
  then have "spec_batch_sizes (r - c) c \<noteq> []"
    using spec_batch_sizes_pos [of "r - c" c] assms by simp
  then show ?thesis
    using True
    by (simp add: spec_dispatch_events_def spec_batch_sizes_pos [OF assms] separate_Cons)
next
  case False
  then have "spec_batch_sizes (r - c) c = []"
    using spec_batch_sizes_nonpos [of "r - c" c] assms by simp
  then show ?thesis
    using False
    by (simp add: spec_dispatch_events_def spec_batch_sizes_pos [OF assms])
qed

lemma batch_then_rest:
  assumes "i < T" "1 \<le> (b::int)"
  shows "nat (min b (T - i)) + nat (T - (i + b)) = nat (T - i)"
  using assms by (simp add: min_def) arith

lemma dispatch_loop_sender:
  assumes "1 \<le> b"
  shows "\<exists>results' this'. dispatch_loop w b T i (results, this) = Some (results', this') \<and>
           config this' = config this \<and>
           transactionSender this' =
             after_draws (ethers_lib w) (or_else (cfg_value (config this)) ''0'') (nat (T - i))
               (transactionSender this)"
proof -
  let ?Q = "\<lambda>(i::int) (st :: TransactionResult list \<times> LoadTester) out.
      config (snd out) = config (snd st) \<and>
      transactionSender (snd out) =
        after_draws (ethers_lib w) (or_else (cfg_value (config (snd st))) ''0'') (nat (T - i))
          (transactionSender (snd st))"
  have "\<exists>out. dispatch_loop w b T i (results, this) = Some out \<and> ?Q i (results, this) out"
  proof (rule dispatch_loop_rule [OF assms, where Q = ?Q])
    fix i st
    assume "\<not> i < T"
    then show "?Q i st st" by (simp add: after_draws_0)
  next
    fix i st st' out
    assume lt: "i < T" and step: "dispatch_batch w b T i st = Some st'" and ih: "?Q (i + b) st' out"
    obtain rs t where st: "st = (rs, t)" by (cases st)
    obtain rs' t' where st': "st' = (rs', t')" by (cases st')
    note f = dispatch_batch_fields [OF step [unfolded st st']]
    show "?Q i st out"
      using ih batch_then_rest [OF lt assms]
      by (simp add: st st' f(2) f(8) after_draws_add)
  qed
  then show ?thesis by auto
qed

lemma sendTransaction_ignores_settling:
  "sendTransaction lib (env\<lparr>se_settledAt := x\<rparr>) s to val gasLimit gp =
   sendTransaction lib env s to val gasLimit gp"
  by (simp add: sendTransaction_def sendTransaction_try_def Let_def split: sum.splits)

lemma send_outcome_retimed:
  "send_outcome (w\<lparr>send_envs := \<lambda>i j. (send_envs w i j)\<lparr>se_settledAt := t i j\<rparr>\<rparr>) cfg i =
   send_outcome w cfg i"
  by (rule ext) (simp add: send_outcome_def sendTransaction_ignores_settling)

lemma dispatch_batch_retimed:
  "dispatch_batch (w\<lparr>send_envs := \<lambda>i j. (send_envs w i j)\<lparr>se_settledAt := t i j\<rparr>\<rparr>) b T i st =
   dispatch_batch w b T i st"
  by (cases st)
    (simp add: dispatch_batch_eq batch_outcomes_def send_outcome_retimed Let_def)

lemma dispatch_loop_retimed:
  assumes "1 \<le> b"
  shows "dispatch_loop (w\<lparr>send_envs := \<lambda>i j. (send_envs w i j)\<lparr>se_settledAt := t i j\<rparr>\<rparr>) b T i st =
         dispatch_loop w b T i st"
proof -
  let ?w = "w\<lparr>send_envs := \<lambda>i j. (send_envs w i j)\<lparr>se_settledAt := t i j\<rparr>\<rparr>"
  let ?Q = "\<lambda>i st out. dispatch_loop ?w b T i st = Some out"
  have "\<exists>out. dispatch_loop w b T i st = Some out \<and> ?Q i st out"
  proof (rule dispatch_loop_rule [OF assms, where Q = ?Q])
    fix i st
    assume "\<not> i < T"
    then show "?Q i st st" by (subst dispatch_loop.simps) simp
  next
    fix i st st' out
    assume "i < T" "dispatch_batch w b T i st = Some st'" "?Q (i + b) st' out"
    then show "?Q i st out"
      by (subst dispatch_loop.simps) (simp add: dispatch_batch_retimed)
  qed
  then show ?thesis by auto
qed

lemma sorted_wrt_offsets: "sorted_wrt (<) (map (\<lambda>k. n + int k) [0..<m])"
  by (simp add: sorted_wrt_map sorted_wrt_iff_nth_less)

lemma distinct_offsets: "distinct (map (\<lambda>k. n + int k) [0..<m])"
  by (simp add: distinct_map inj_on_def)


lemma batch_position:
  assumes "nat b \<le> k" "1 \<le> (b::int)"
  shows "i + b + b * int ((k - nat b) div nat b) = i + b * int (k div nat b)"
    and "(k - nat b) mod nat b = k mod nat b"
proof -
  have pos: "0 < nat b" using assms(2) by simp
  have "k div nat b = Suc ((k - nat b) div nat b)"
    using assms(1) pos by (simp add: le_div_geq)
  then show "i + b + b * int ((k - nat b) div nat b) = i + b * int (k div nat b)"
    by (simp add: algebra_simps)
  show "(k - nat b) mod nat b = k mod nat b"
    using assms(1) by (simp add: le_mod_geq)
qed

lemma dispatch_loop_results:
  assumes "1 \<le> b"
  shows "\<exists>R this'. dispatch_loop w b T i (results, this) = Some (results @ R, this') \<and>
           length R = nat (T - i) \<and>
           (\<forall>k < nat (T - i).
              R ! k = send_outcome w (config this) (i + b * int (k div nat b)) (k mod nat b)) \<and>
           calls this' = calls this @ spec_dispatch_events (T - i) b"
proof -
  let ?Q = "\<lambda>(i::int) (st :: TransactionResult list \<times> LoadTester) out.
      config (snd out) = config (snd st) \<and>
      (\<exists>R. fst out = fst st @ R \<and> length R = nat (T - i) \<and>
           (\<forall>k < nat (T - i).
              R ! k = send_outcome w (config (snd st)) (i + b * int (k div nat b)) (k mod nat b))) \<and>
      calls (snd out) = calls (snd st) @ spec_dispatch_events (T - i) b"
  have "\<exists>out. dispatch_loop w b T i (results, this) = Some out \<and> ?Q i (results, this) out"
  proof (rule dispatch_loop_rule [OF assms, where Q = ?Q])
    fix i st
    assume "\<not> i < T"
    then show "?Q i st st"
      using assms by (simp add: spec_dispatch_events_nonpos)
  next
    fix i st st' out
    assume lt: "i < T" and step: "dispatch_batch w b T i st = Some st'" and ih: "?Q (i + b) st' out"
    obtain rs t where st: "st = (rs, t)" by (cases st)
    obtain rs' t' where st': "st' = (rs', t')" by (cases st')
    note f = dispatch_batch_fields [OF step [unfolded st st']]
    let ?n = "nat (min b (T - i))"
    let ?B = "batch_outcomes w (config t) i ?n"
    from ih obtain R' where R': "fst out = rs' @ R'" "length R' = nat (T - (i + b))"
      "\<forall>k < nat (T - (i + b)).
          R' ! k = send_outcome w (config t) (i + b + b * int (k div nat b)) (k mod nat b)"
      and cfg: "config (snd out) = config t"
      and cl: "calls (snd out) = calls t' @ spec_dispatch_events (T - (i + b)) b"
      by (auto simp: st' f(2))
    have len: "length (?B @ R') = nat (T - i)"
      using batch_then_rest [OF lt assms] by (simp add: batch_outcomes_length R'(2))
    have nth: "(?B @ R') ! k = send_outcome w (config t) (i + b * int (k div nat b)) (k mod nat b)"
      if k: "k < nat (T - i)" for k
    proof (cases "k < ?n")
      case True
      then have "k < nat b" by simp
      then show ?thesis
        using True by (simp add: nth_append batch_outcomes_length batch_outcomes_def)
    next
      case False
      then have n: "?n = nat b" using k by (simp add: min_def split: if_splits)
      have kb: "nat b \<le> k" using False n by simp
      have "k - nat b < nat (T - (i + b))" using k kb assms by simp
      with R'(3) have "R' ! (k - nat b) =
          send_outcome w (config t) (i + b + b * int ((k - nat b) div nat b)) ((k - nat b) mod nat b)"
        by blast
      then show ?thesis
        using False n by (simp add: nth_append batch_outcomes_length batch_position [OF kb assms])
    qed
    have ev: "calls (snd out) = calls t @ spec_dispatch_events (T - i) b"
    proof -
      have r: "0 < T - i" using lt by simp
      have e: "T - (i + b) = T - i - b" by simp
      have c: "(i + b < T) = (b < T - i)" by auto
      have "\<not> b < T - i \<Longrightarrow> spec_dispatch_events (T - i - b) b = []"
        using assms by (simp add: spec_dispatch_events_nonpos)
      then show ?thesis
        using spec_dispatch_events_pos [OF r assms]
        by (simp add: cl f(10) e c)
    qed
    show "?Q i st out"
      using cfg len nth ev R'(1) by (auto simp: st f(1))
  qed
  then show ?thesis by (cases "the (dispatch_loop w b T i (results, this))") auto
qed

section \<open>Properties of a whole run\<close>

lemma calculateFinalMetrics_frame:
  "isRunning (calculateFinalMetrics w this) = isRunning this"
  "transactionSender (calculateFinalMetrics w this) = transactionSender this"
  "config (calculateFinalMetrics w this) = config this"
  "tpsSnapshots (calculateFinalMetrics w this) = tpsSnapshots this"
  "recorded (calculateFinalMetrics w this) = recorded this"
  "calls (calculateFinalMetrics w this) = calls this"
  "this_startTime (calculateFinalMetrics w this) = this_startTime this"
  "this_endTime (calculateFinalMetrics w this) = this_endTime this"
  by (simp_all add: calculateFinalMetrics_def Let_def)

lemma calculateFinalMetrics_idle:
  "\<not> isRunning t \<Longrightarrow> (calculateFinalMetrics w t)\<lparr>isRunning := False\<rparr> = calculateFinalMetrics w t"
  by (simp add: calculateFinalMetrics_def Let_def)

text \<open>\<open>startLoadTest\<close> on an idle tester, once the dispatch has returned.\<close>

lemma startLoadTest_unfold:
  assumes "\<not> isRunning this"
    and "executeConcurrentTransactions w
           (this\<lparr>isRunning := True, this_startTime := start_clock w,
                 metrics := (metrics this)\<lparr>startTime := start_clock w\<rparr>,
                 monitoringInterval := realTimeStats (options this)\<rparr>) =
         Some (results, dispatched)"
  shows "startLoadTest w this =
         Some (case completed_listeners w of
                 None \<Rightarrow>
                   Inr (metrics (calculateFinalMetrics w
                     ((waitForAllConfirmations w results (dispatched\<lparr>monitoringInterval := False\<rparr>))
                        \<lparr>this_endTime := end_clock w,
                         metrics := (metrics (waitForAllConfirmations w results
                                       (dispatched\<lparr>monitoringInterval := False\<rparr>)))
                                      \<lparr>endTime := end_clock w\<rparr>,
                         isRunning := False\<rparr>)))
               | Some e \<Rightarrow> Inl e,
               calculateFinalMetrics w
                 ((waitForAllConfirmations w results (dispatched\<lparr>monitoringInterval := False\<rparr>))
                    \<lparr>this_endTime := end_clock w,
                     metrics := (metrics (waitForAllConfirmations w results
                                   (dispatched\<lparr>monitoringInterval := False\<rparr>)))
                                  \<lparr>endTime := end_clock w\<rparr>,
                     isRunning := False\<rparr>))"
proof -
  let ?ended = "(waitForAllConfirmations w results (dispatched\<lparr>monitoringInterval := False\<rparr>))
                    \<lparr>this_endTime := end_clock w,
                     metrics := (metrics (waitForAllConfirmations w results
                                   (dispatched\<lparr>monitoringInterval := False\<rparr>)))
                                  \<lparr>endTime := end_clock w\<rparr>,
                     isRunning := False\<rparr>"
  have idle: "(calculateFinalMetrics w ?ended)\<lparr>isRunning := False\<rparr> = calculateFinalMetrics w ?ended"
    by (rule calculateFinalMetrics_idle) simp
  have run: "executeConcurrentTransactions w
           (this\<lparr>isRunning := True, this_startTime := start_clock w,
                 metrics := (metrics this)\<lparr>startTime := start_clock w\<rparr>,
                 monitoringInterval :=
                   realTimeStats (options (this\<lparr>isRunning := True, this_startTime := start_clock w,
                     metrics := (metrics this)\<lparr>startTime := start_clock w\<rparr>\<rparr>))\<rparr>) =
         Some (results, dispatched)"
    using assms(2) by simp
  show ?thesis
    unfolding startLoadTest_def Let_def
    by (simp only: assms(1) if_False run option.case prod.case idle split: option.split) simp
qed

lemma startLoadTest_counters:
  assumes "\<not> isRunning this" and "1 \<le> concurrency (config this)"
  shows "\<exists>outcome final.
           startLoadTest w this = Some (outcome, final) \<and>
           (outcome = Inr (metrics final) \<or> (\<exists>e. outcome = Inl e)) \<and>
           \<not> isRunning final \<and>
           unaccounted (metrics final) = unaccounted (metrics this) \<and>
           pendingTransactions (metrics final) = pendingTransactions (metrics this)"
proof -
  let ?monitored = "this\<lparr>isRunning := True, this_startTime := start_clock w,
                        metrics := (metrics this)\<lparr>startTime := start_clock w\<rparr>,
                        monitoringInterval := realTimeStats (options this)\<rparr>"
  have "1 \<le> concurrency (config ?monitored)"
    using assms(2) by simp
  from executeConcurrentTransactions_counters [OF this, of w]
  obtain results dispatched
    where run: "executeConcurrentTransactions w ?monitored = Some (results, dispatched)"
      and u: "unaccounted (metrics dispatched) = unaccounted (metrics this)"
      and p: "pendingTransactions (metrics dispatched) =
                pendingTransactions (metrics this) + pending_in results"
    by (auto simp: unaccounted_def)
  let ?cleared = "dispatched\<lparr>monitoringInterval := False\<rparr>"
  have c: "pendingTransactions (metrics (waitForAllConfirmations w results ?cleared)) =
             pendingTransactions (metrics this)"
    "unaccounted (metrics (waitForAllConfirmations w results ?cleared)) =
       unaccounted (metrics this)"
    using waitForAllConfirmations_counters [of w results ?cleared] u p by simp_all
  let ?confirmed = "waitForAllConfirmations w results ?cleared"
  let ?ended = "?confirmed\<lparr>this_endTime := end_clock w,
                   metrics := (metrics ?confirmed)\<lparr>endTime := end_clock w\<rparr>,
                   isRunning := False\<rparr>"
  note start = startLoadTest_unfold [OF assms(1) run]
  have "unaccounted (metrics (calculateFinalMetrics w ?ended)) = unaccounted (metrics this)"
    using c(2) by (simp add: unaccounted_def calculateFinalMetrics_counters)
  moreover have "pendingTransactions (metrics (calculateFinalMetrics w ?ended)) =
      pendingTransactions (metrics this)"
    using c(1) by (simp add: calculateFinalMetrics_counters)
  moreover have "\<not> isRunning (calculateFinalMetrics w ?ended)"
    by (simp add: calculateFinalMetrics_frame)
  ultimately show ?thesis
    unfolding start by (cases "completed_listeners w") simp_all
qed

section \<open>Claims about dispatch\<close>

text \<open>
  Claim C1.  Take a tester whose counters add up (\<open>successful + failed + pending = total\<close>)
  with nothing pending, as after construction and after every completed run, and a
  configuration with \<open>transactionCount \<ge> 0\<close> and \<open>concurrency \<ge> 1\<close>.  Then
  \<open>executeConcurrentTransactions\<close> returns, and the counters add up again; after
  \<open>waitForAllConfirmations\<close> on the returned outcomes \<open>pendingTransactions\<close> is zero and
  every transaction is counted as successful or failed.  The same holds for the metrics
  at the end of \<open>startLoadTest\<close>, which are the summary the run returns.
\<close>

theorem counters_balance_and_pending_resolved:
  assumes "0 \<le> transactionCount (config this)"
    and "1 \<le> concurrency (config this)"
    and "successfulTransactions (metrics this) + failedTransactions (metrics this) +
         pendingTransactions (metrics this) = totalTransactions (metrics this)"
    and "pendingTransactions (metrics this) = 0"
  shows "(\<exists>results dispatched.
           executeConcurrentTransactions w this = Some (results, dispatched) \<and>
           successfulTransactions (metrics dispatched) + failedTransactions (metrics dispatched) +
             pendingTransactions (metrics dispatched) = totalTransactions (metrics dispatched) \<and>
           pendingTransactions (metrics (waitForAllConfirmations w results dispatched)) = 0 \<and>
           successfulTransactions (metrics (waitForAllConfirmations w results dispatched)) +
             failedTransactions (metrics (waitForAllConfirmations w results dispatched)) =
             totalTransactions (metrics (waitForAllConfirmations w results dispatched))) \<and>
         (\<not> isRunning this \<longrightarrow>
            (\<exists>outcome final.
               startLoadTest w this = Some (outcome, final) \<and>
               (outcome = Inr (metrics final) \<or> (\<exists>e. outcome = Inl e)) \<and>
               pendingTransactions (metrics final) = 0 \<and>
               successfulTransactions (metrics final) + failedTransactions (metrics final) =
                 totalTransactions (metrics final)))"
proof -
  have zero: "unaccounted (metrics this) = 0"
    using assms(3) by (simp add: unaccounted_def)
  from executeConcurrentTransactions_counters [OF assms(2), of w]
  obtain results dispatched where run: "executeConcurrentTransactions w this = Some (results, dispatched)"
    and u: "unaccounted (metrics dispatched) = unaccounted (metrics this)"
    and p: "pendingTransactions (metrics dispatched) =
              pendingTransactions (metrics this) + pending_in results"
    by blast
  let ?c = "waitForAllConfirmations w results dispatched"
  have c: "pendingTransactions (metrics ?c) = pendingTransactions (metrics dispatched) - pending_in results"
    "unaccounted (metrics ?c) = unaccounted (metrics dispatched)"
    using waitForAllConfirmations_counters [of w results dispatched] by simp_all
  have first: "\<exists>results dispatched.
           executeConcurrentTransactions w this = Some (results, dispatched) \<and>
           successfulTransactions (metrics dispatched) + failedTransactions (metrics dispatched) +
             pendingTransactions (metrics dispatched) = totalTransactions (metrics dispatched) \<and>
           pendingTransactions (metrics (waitForAllConfirmations w results dispatched)) = 0 \<and>
           successfulTransactions (metrics (waitForAllConfirmations w results dispatched)) +
             failedTransactions (metrics (waitForAllConfirmations w results dispatched)) =
             totalTransactions (metrics (waitForAllConfirmations w results dispatched))"
    using run u p c assms(4) zero by (simp add: unaccounted_def)
  have second: "\<exists>outcome final.
               startLoadTest w this = Some (outcome, final) \<and>
               (outcome = Inr (metrics final) \<or> (\<exists>e. outcome = Inl e)) \<and>
               pendingTransactions (metrics final) = 0 \<and>
               successfulTransactions (metrics final) + failedTransactions (metrics final) =
                 totalTransactions (metrics final)"
    if idle: "\<not> isRunning this"
  proof -
    from startLoadTest_counters [OF idle assms(2), of w]
    obtain outcome final where s: "startLoadTest w this = Some (outcome, final)"
      "outcome = Inr (metrics final) \<or> (\<exists>e. outcome = Inl e)"
      "unaccounted (metrics final) = unaccounted (metrics this)"
      "pendingTransactions (metrics final) = pendingTransactions (metrics this)"
      by blast
    then show ?thesis
      using zero assms(4) by (simp add: unaccounted_def)
  qed
  show ?thesis
    using first second by blast
qed

text \<open>A fresh tester with the example configuration, run in the example world.\<close>

theorem counters_balance_and_pending_resolved_witness:
  "0 \<le> transactionCount (config (new_LoadTester example_config None)) \<and>
   1 \<le> concurrency (config (new_LoadTester example_config None)) \<and>
   pendingTransactions (metrics (new_LoadTester example_config None)) = 0 \<and>
   \<not> isRunning (new_LoadTester example_config None) \<and>
   (\<exists>outcome final.
      startLoadTest example_world (new_LoadTester example_config None) = Some (outcome, final) \<and>
      pendingTransactions (metrics final) = 0 \<and>
      successfulTransactions (metrics final) + failedTransactions (metrics final) =
        totalTransactions (metrics final))"
proof -
  let ?t = "new_LoadTester example_config None"
  have h: "0 \<le> transactionCount (config ?t)" "1 \<le> concurrency (config ?t)"
    "successfulTransactions (metrics ?t) + failedTransactions (metrics ?t) +
       pendingTransactions (metrics ?t) = totalTransactions (metrics ?t)"
    "pendingTransactions (metrics ?t) = 0" "\<not> isRunning ?t"
    by (simp_all add: new_LoadTester_def example_config_def createInitialMetrics_def)
  from counters_balance_and_pending_resolved [OF h(1-4), of example_world] h(5)
  have "\<exists>outcome final.
      startLoadTest example_world ?t = Some (outcome, final) \<and>
      pendingTransactions (metrics final) = 0 \<and>
      successfulTransactions (metrics final) + failedTransactions (metrics final) =
        totalTransactions (metrics final)"
    by blast
  then show ?thesis
    using h by simp
qed

text \<open>
  Claim C2, as the code has it.  With \<open>transactionCount \<ge> 0\<close> and \<open>concurrency \<ge> 1\<close>
  the dispatch returns, and the nonces drawn during it, in call order, are
  \<open>nonce, nonce + 1, \<dots>, nonce + transactionCount - 1\<close>: strictly increasing and
  without duplicates.  Moving the settling instants of the submissions, that is choosing
  any other completion order, changes neither the outcomes nor the final state.  A call
  of \<open>sendTransaction\<close> draws exactly one nonce when its value string parses, also when
  the call fails afterwards, and none when \<open>parseEther\<close> throws: the object literal
  evaluates \<open>ethers.parseEther(value)\<close> before \<open>this.nonce++\<close>.  So a run whose value
  string does not parse draws no nonce at all.
\<close>

theorem nonces_drawn_in_call_order:
  assumes "0 \<le> transactionCount (config this)"
    and "1 \<le> concurrency (config this)"
  shows "\<exists>results dispatched.
           executeConcurrentTransactions w this = Some (results, dispatched) \<and>
           executeConcurrentTransactions
             (w\<lparr>send_envs := \<lambda>i j. (send_envs w i j)\<lparr>se_settledAt := t i j\<rparr>\<rparr>) this =
             Some (results, dispatched) \<and>
           drawn (transactionSender dispatched) =
             drawn (transactionSender this) @
             (if isl (parseEther (ethers_lib w) (or_else (cfg_value (config this)) ''0'')) then []
              else map (\<lambda>k. nonce (transactionSender this) + int k)
                     [0..<nat (transactionCount (config this))]) \<and>
           nonce (transactionSender dispatched) =
             nonce (transactionSender this) +
             (if isl (parseEther (ethers_lib w) (or_else (cfg_value (config this)) ''0'')) then 0
              else transactionCount (config this)) \<and>
           sorted_wrt (<) (drop (length (drawn (transactionSender this)))
                             (drawn (transactionSender dispatched))) \<and>
           distinct (drop (length (drawn (transactionSender this)))
                       (drawn (transactionSender dispatched))) \<and>
           snd (sendTransaction lib env s to val gasLimit gp) =
             (if isl (parseEther lib val) then s
              else s\<lparr>nonce := nonce s + 1, drawn := drawn s @ [nonce s]\<rparr>)"
proof -
  from dispatch_loop_sender [OF assms(2), of w "transactionCount (config this)" 0 "[]" this]
  obtain results dispatched
    where run: "executeConcurrentTransactions w this = Some (results, dispatched)"
      and s: "transactionSender dispatched =
                after_draws (ethers_lib w) (or_else (cfg_value (config this)) ''0'')
                  (nat (transactionCount (config this))) (transactionSender this)"
    by (auto simp: executeConcurrentTransactions_def)
  have "executeConcurrentTransactions
          (w\<lparr>send_envs := \<lambda>i j. (send_envs w i j)\<lparr>se_settledAt := t i j\<rparr>\<rparr>) this =
        Some (results, dispatched)"
    using run dispatch_loop_retimed [OF assms(2), where w = w and t = t
        and T = "transactionCount (config this)" and i = 0 and st = "([], this)"]
    by (simp add: executeConcurrentTransactions_def)
  then show ?thesis
    using run assms(1)
    by (simp add: s after_draws_def sorted_wrt_offsets distinct_offsets sendTransaction_sender)
qed

text \<open>The example run draws the nonces 0 to 24.\<close>

theorem nonces_drawn_in_call_order_witness:
  "0 \<le> transactionCount (config (new_LoadTester example_config None)) \<and>
   1 \<le> concurrency (config (new_LoadTester example_config None)) \<and>
   (\<exists>results dispatched.
      executeConcurrentTransactions example_world (new_LoadTester example_config None) =
        Some (results, dispatched) \<and>
      drawn (transactionSender dispatched) = map int [0..<25] \<and>
      nonce (transactionSender dispatched) = 25)"
proof -
  let ?t = "new_LoadTester example_config None"
  have h: "0 \<le> transactionCount (config ?t)" "1 \<le> concurrency (config ?t)"
    by (simp_all add: new_LoadTester_def example_config_def)
  have v: "parseEther (ethers_lib example_world) (or_else (cfg_value (config ?t)) ''0'') = Inr 0"
    by (simp add: new_LoadTester_def example_config_def example_world_def plain_ethers_def
        parse_digits_def or_else_def)
  have f: "transactionCount (config ?t) = 25" "nonce (transactionSender ?t) = 0"
    "drawn (transactionSender ?t) = []"
    by (simp_all add: new_LoadTester_def example_config_def)
  from nonces_drawn_in_call_order [OF h, of example_world]
  have "\<exists>results dispatched.
      executeConcurrentTransactions example_world ?t = Some (results, dispatched) \<and>
      drawn (transactionSender dispatched) = map int [0..<25] \<and>
      nonce (transactionSender dispatched) = 25"
    by (simp add: v f) blast
  then show ?thesis
    using h by simp
qed

text \<open>
  Claim C2 as stated has every call consume a nonce.  A call whose value string is
  \<open>abc\<close> fails and leaves the counter where it was.
\<close>

theorem sendTransaction_unparsed_value_draws_no_nonce:
  "status (fst (sendTransaction plain_ethers
          \<lparr>se_now = 1000, se_feeData = Inr (Some 20000000000),
           se_sendTransaction = Inr \<lparr>resp_hash = ''0xabc'', resp_gasPrice = 20000000000\<rparr>,
           se_settledAt = 1040\<rparr>
          \<lparr>nonce = 7, drawn = []\<rparr> ''0x02'' ''abc'' 21000 None)) = Failed \<and>
   snd (sendTransaction plain_ethers
          \<lparr>se_now = 1000, se_feeData = Inr (Some 20000000000),
           se_sendTransaction = Inr \<lparr>resp_hash = ''0xabc'', resp_gasPrice = 20000000000\<rparr>,
           se_settledAt = 1040\<rparr>
          \<lparr>nonce = 7, drawn = []\<rparr> ''0x02'' ''abc'' 21000 None) = \<lparr>nonce = 7, drawn = []\<rparr>"
  by (simp add: sendTransaction_def sendTransaction_try_def plain_ethers_def parse_digits_def
      send_failed_def)

text \<open>
  Claim C4.  With \<open>transactionCount \<ge> 0\<close> and \<open>concurrency \<ge> 1\<close> the dispatch returns
  exactly \<open>transactionCount\<close> outcomes; outcome \<open>k\<close> is that of call \<open>k mod concurrency\<close>
  of the batch that starts at index \<open>concurrency * (k div concurrency)\<close>, so the outcomes
  are in batch order.  The batches sent and the pauses taken are those of the
  specification: batches of size \<open>min(concurrency, remaining)\<close> with a pause after each
  but the last.  For 25 transactions, 10 at a time, these are batches of 10, 10 and 5
  with two pauses between them.
\<close>

theorem dispatch_batches_in_order:
  assumes "0 \<le> transactionCount (config this)"
    and "1 \<le> concurrency (config this)"
  shows "\<exists>results dispatched.
           executeConcurrentTransactions w this = Some (results, dispatched) \<and>
           length results = nat (transactionCount (config this)) \<and>
           (\<forall>k < nat (transactionCount (config this)).
              results ! k =
                send_outcome w (config this)
                  (concurrency (config this) * int (k div nat (concurrency (config this))))
                  (k mod nat (concurrency (config this)))) \<and>
           calls dispatched =
             calls this @
             spec_dispatch_events (transactionCount (config this)) (concurrency (config this)) \<and>
           (transactionCount (config this) = 25 \<and> concurrency (config this) = 10 \<longrightarrow>
              calls dispatched =
                calls this @ [SendBatch 10, Sleep 100, SendBatch 10, Sleep 100, SendBatch 5])"
proof -
  from dispatch_loop_results [OF assms(2), of w "transactionCount (config this)" 0 "[]" this]
  obtain R this' where run: "executeConcurrentTransactions w this = Some (R, this')"
    and rest: "length R = nat (transactionCount (config this))"
      "\<forall>k < nat (transactionCount (config this)).
         R ! k = send_outcome w (config this)
                   (concurrency (config this) * int (k div nat (concurrency (config this))))
                   (k mod nat (concurrency (config this)))"
      "calls this' = calls this @
         spec_dispatch_events (transactionCount (config this)) (concurrency (config this))"
    by (auto simp: executeConcurrentTransactions_def)
  have "spec_dispatch_events 25 10 =
          [SendBatch 10, Sleep 100, SendBatch 10, Sleep 100, SendBatch 5]"
    by (simp add: spec_dispatch_events_pos spec_dispatch_events_nonpos)
  then show ?thesis
    using run rest by auto
qed

text \<open>The example run: 25 transactions, 10 at a time.\<close>

theorem dispatch_batches_in_order_witness:
  "0 \<le> transactionCount (config (new_LoadTester example_config None)) \<and>
   1 \<le> concurrency (config (new_LoadTester example_config None)) \<and>
   transactionCount (config (new_LoadTester example_config None)) = 25 \<and>
   concurrency (config (new_LoadTester example_config None)) = 10 \<and>
   (\<exists>results dispatched.
      executeConcurrentTransactions example_world (new_LoadTester example_config None) =
        Some (results, dispatched) \<and>
      length results = 25 \<and>
      calls dispatched = [SendBatch 10, Sleep 100, SendBatch 10, Sleep 100, SendBatch 5])"
proof -
  let ?t = "new_LoadTester example_config None"
  have h: "0 \<le> transactionCount (config ?t)" "1 \<le> concurrency (config ?t)"
    by (simp_all add: new_LoadTester_def example_config_def)
  have f: "transactionCount (config ?t) = 25" "concurrency (config ?t) = 10" "calls ?t = []"
    by (simp_all add: new_LoadTester_def example_config_def)
  from dispatch_batches_in_order [OF h, of example_world]
  have "\<exists>results dispatched.
      executeConcurrentTransactions example_world ?t = Some (results, dispatched) \<and>
      length results = 25 \<and>
      calls dispatched = [SendBatch 10, Sleep 100, SendBatch 10, Sleep 100, SendBatch 5]"
    by (simp add: f) blast
  then show ?thesis
    using h f by simp
qed

section \<open>Start and stop\<close>

text \<open>
  Claim C9, as the code has it.  While a run is in progress a call of \<open>startLoadTest\<close>
  returns a promise rejected with the error \<open>Load test is already running\<close>.  The body
  ends at its first statement, before any suspension, whatever the outside world would
  do, without a call to the sender and with every field of the tester as it was.
\<close>

theorem startLoadTest_rejects_promise_while_running:
  assumes "isRunning this"
  shows "startLoadTest_call w this =
           Some (Returns (Inl (ErrorObject ''Load test is already running'')), this)"
  using assms by (simp add: startLoadTest_call_def startLoadTest_def async_call_def)

text \<open>A tester in the middle of a run.\<close>

theorem startLoadTest_rejects_promise_while_running_witness:
  "isRunning ((new_LoadTester example_config None)\<lparr>isRunning := True\<rparr>) \<and>
   startLoadTest_call example_world ((new_LoadTester example_config None)\<lparr>isRunning := True\<rparr>) =
     Some (Returns (Inl (ErrorObject ''Load test is already running'')),
           (new_LoadTester example_config None)\<lparr>isRunning := True\<rparr>)"
  using startLoadTest_rejects_promise_while_running
    [of "(new_LoadTester example_config None)\<lparr>isRunning := True\<rparr>" example_world]
  by simp

text \<open>
  Claim C9 as stated has the error thrown synchronously to the caller.  The method is
  \<open>async\<close>: the call on the running tester throws nothing at the call site and returns a
  promise, which is the one that carries the error.
\<close>

theorem startLoadTest_throws_nothing_at_call_site:
  "isRunning ((new_LoadTester example_config None)\<lparr>isRunning := True\<rparr>) \<and>
   startLoadTest_call example_world ((new_LoadTester example_config None)\<lparr>isRunning := True\<rparr>) \<noteq>
     Some (Throws (ErrorObject ''Load test is already running''),
           (new_LoadTester example_config None)\<lparr>isRunning := True\<rparr>) \<and>
   startLoadTest_call example_world ((new_LoadTester example_config None)\<lparr>isRunning := True\<rparr>) =
     Some (Returns (Inl (ErrorObject ''Load test is already running'')),
           (new_LoadTester example_config None)\<lparr>isRunning := True\<rparr>)"
  by (simp add: startLoadTest_call_def startLoadTest_def async_call_def)

text \<open>
  Stopping commutes with everything a run still has to do: the interval callbacks, the
  batches and the confirmation waits neither read nor write what \<open>stopLoadTest\<close> writes.
\<close>

lemma stopLoadTest_state:
  "snd (stopLoadTest now l this) = (if isRunning this then stopped_at now this else this)"
  by (simp add: stopLoadTest_def stopped_at_def Let_def split: option.splits)

lemma stopped_at_fields:
  "config (stopped_at now t) = config t"
  "options (stopped_at now t) = options t"
  "transactionSender (stopped_at now t) = transactionSender t"
  "calls (stopped_at now t) = calls t"
  "tpsSnapshots (stopped_at now t) = tpsSnapshots t"
  "recorded (stopped_at now t) = recorded t"
  "monitoringInterval (stopped_at now t) = monitoringInterval t"
  "this_startTime (stopped_at now t) = this_startTime t"
  "metrics (stopped_at now t) = (metrics t)\<lparr>endTime := now\<rparr>"
  "isRunning (stopped_at now t) = False"
  "this_endTime (stopped_at now t) = now"
  by (simp_all add: stopped_at_def)

lemma stopped_at_updates:
  "(stopped_at now t)\<lparr>transactionSender := a, calls := c\<rparr> =
     stopped_at now (t\<lparr>transactionSender := a, calls := c\<rparr>)"
  "(stopped_at now t)\<lparr>calls := c\<rparr> = stopped_at now (t\<lparr>calls := c\<rparr>)"
  "(stopped_at now t)\<lparr>metrics := m\<lparr>endTime := now\<rparr>\<rparr> = stopped_at now (t\<lparr>metrics := m\<rparr>)"
  by (simp_all add: stopped_at_def)

lemma updateTpsSnapshot_stopped:
  "updateTpsSnapshot tick (stopped_at now t) = stopped_at now (updateTpsSnapshot tick t)"
  by (simp add: updateTpsSnapshot_def stopped_at_def Let_def)

lemma interval_callbacks_stopped:
  "interval_callbacks ticks (stopped_at now t) = stopped_at now (interval_callbacks ticks t)"
proof -
  have "foldl (\<lambda>t tick. updateTpsSnapshot tick t) (stopped_at now t) ticks =
        stopped_at now (foldl (\<lambda>t tick. updateTpsSnapshot tick t) t ticks)"
    by (induction ticks arbitrary: t) (simp_all add: updateTpsSnapshot_stopped)
  then show ?thesis
    by (simp add: interval_callbacks_def stopped_at_fields)
qed

lemma count_batch_endTime:
  "count_batch n R (m\<lparr>endTime := now\<rparr>) = (count_batch n R m)\<lparr>endTime := now\<rparr>"
  by (simp add: count_batch_def)

lemma dispatch_batch_stopped:
  "dispatch_batch w b T i (results, stopped_at now this) =
   map_option (\<lambda>(rs, t). (rs, stopped_at now t)) (dispatch_batch w b T i (results, this))"
  by (simp add: dispatch_batch_eq Let_def stopped_at_fields stopped_at_updates
      interval_callbacks_stopped count_batch_endTime)

lemma dispatch_loop_frame:
  assumes "1 \<le> b"
  shows "\<exists>results' this'. dispatch_loop w b T i (results, this) = Some (results', this') \<and>
           config this' = config this \<and> options this' = options this \<and>
           isRunning this' = isRunning this \<and> this_startTime this' = this_startTime this \<and>
           this_endTime this' = this_endTime this \<and>
           monitoringInterval this' = monitoringInterval this \<and>
           averageTPS (metrics this') = averageTPS (metrics this)"
proof -
  let ?Q = "\<lambda>(i::int) (st :: TransactionResult list \<times> LoadTester) out.
      config (snd out) = config (snd st) \<and> options (snd out) = options (snd st) \<and>
      isRunning (snd out) = isRunning (snd st) \<and>
      this_startTime (snd out) = this_startTime (snd st) \<and>
      this_endTime (snd out) = this_endTime (snd st) \<and>
      monitoringInterval (snd out) = monitoringInterval (snd st) \<and>
      averageTPS (metrics (snd out)) = averageTPS (metrics (snd st))"
  have "\<exists>out. dispatch_loop w b T i (results, this) = Some out \<and> ?Q i (results, this) out"
  proof (rule dispatch_loop_rule [OF assms, where Q = ?Q])
    fix i st
    show "?Q i st st" by simp
  next
    fix i st st' out
    assume lt: "i < T" and step: "dispatch_batch w b T i st = Some st'" and ih: "?Q (i + b) st' out"
    obtain rs t where st: "st = (rs, t)" by (cases st)
    obtain rs' t' where st': "st' = (rs', t')" by (cases st')
    note f = dispatch_batch_fields [OF step [unfolded st st']]
    show "?Q i st out"
      using ih by (simp add: st st' f count_batch_def)
  qed
  then show ?thesis by auto
qed

lemma dispatch_loop_stopped:
  assumes "1 \<le> b"
  shows "\<exists>rs t. dispatch_loop w b T i (results, this) = Some (rs, t) \<and>
           dispatch_loop w b T i (results, stopped_at now this) = Some (rs, stopped_at now t)"
proof -
  let ?Q = "\<lambda>(i::int) (st :: TransactionResult list \<times> LoadTester) out.
      dispatch_loop w b T i (fst st, stopped_at now (snd st)) =
        Some (fst out, stopped_at now (snd out))"
  have "\<exists>out. dispatch_loop w b T i (results, this) = Some out \<and> ?Q i (results, this) out"
  proof (rule dispatch_loop_rule [OF assms, where Q = ?Q])
    fix i st
    assume "\<not> i < T"
    then show "?Q i st st" by (subst dispatch_loop.simps) simp
  next
    fix i st st' out
    assume lt: "i < T" and step: "dispatch_batch w b T i st = Some st'" and ih: "?Q (i + b) st' out"
    obtain rs t where st: "st = (rs, t)" by (cases st)
    obtain rs' t' where st': "st' = (rs', t')" by (cases st')
    have "dispatch_batch w b T i (rs, stopped_at now t) = Some (rs', stopped_at now t')"
      using step by (simp add: st st' dispatch_batch_stopped)
    then show "?Q i st out"
      using lt ih by (subst dispatch_loop.simps) (simp add: st st')
  qed
  then show ?thesis by auto
qed

lemma count_confirmation_endTime:
  "count_confirmation (m\<lparr>endTime := now\<rparr>) r = (count_confirmation m r)\<lparr>endTime := now\<rparr>"
  by (simp add: count_confirmation_def split: option.splits)

lemma count_confirmations_endTime:
  "foldl count_confirmation (m\<lparr>endTime := now\<rparr>) rs =
   (foldl count_confirmation m rs)\<lparr>endTime := now\<rparr>"
  by (induction rs arbitrary: m) (simp_all add: count_confirmation_endTime)

lemma waitForAllConfirmations_stopped:
  "waitForAllConfirmations w results (stopped_at now t) =
   stopped_at now (waitForAllConfirmations w results t)"
  by (simp add: waitForAllConfirmations_def Let_def stopped_at_fields
      count_confirmations_endTime stopped_at_def)

lemma waitForAllConfirmations_frame:
  "isRunning (waitForAllConfirmations w results t) = isRunning t"
  "config (waitForAllConfirmations w results t) = config t"
  "this_startTime (waitForAllConfirmations w results t) = this_startTime t"
  "this_endTime (waitForAllConfirmations w results t) = this_endTime t"
  "tpsSnapshots (waitForAllConfirmations w results t) = tpsSnapshots t"
  "recorded (waitForAllConfirmations w results t) = recorded t"
  "transactionSender (waitForAllConfirmations w results t) = transactionSender t"
  "monitoringInterval (waitForAllConfirmations w results t) = monitoringInterval t"
  by (simp_all add: waitForAllConfirmations_def Let_def)

text \<open>
  Claim C8.  During a run \<open>stopLoadTest\<close> clears \<open>isRunning\<close> and sets \<open>endTime\<close>, in
  the tester and in its metrics, and it returns normally unless a listener of
  \<open>stopped\<close> throws.  While idle it returns normally and changes nothing.  It touches
  neither the sender nor the log of calls, and it cancels nothing: from a stopped tester
  the dispatch loop sends the same batches and returns the same outcomes, and the
  confirmation waits count the same results, as from the tester left running; the final
  state is the one that stopping afterwards would give.
\<close>

theorem stopLoadTest_cooperative:
  "(isRunning this \<longrightarrow>
      \<not> isRunning (snd (stopLoadTest now l this)) \<and>
      this_endTime (snd (stopLoadTest now l this)) = now \<and>
      endTime (metrics (snd (stopLoadTest now l this))) = now \<and>
      (l = None \<longrightarrow> fst (stopLoadTest now l this) = Inr ())) \<and>
   (\<not> isRunning this \<longrightarrow> stopLoadTest now l this = (Inr (), this)) \<and>
   transactionSender (snd (stopLoadTest now l this)) = transactionSender this \<and>
   calls (snd (stopLoadTest now l this)) = calls this \<and>
   (1 \<le> b \<longrightarrow>
      (\<exists>rs t. dispatch_loop w b T i (results, this) = Some (rs, t) \<and>
         dispatch_loop w b T i (results, snd (stopLoadTest now l this)) =
           Some (rs, snd (stopLoadTest now l t)) \<and>
         waitForAllConfirmations w rs (snd (stopLoadTest now l t)) =
           snd (stopLoadTest now l (waitForAllConfirmations w rs t))))"
proof -
  have "\<exists>rs t. dispatch_loop w b T i (results, this) = Some (rs, t) \<and>
         dispatch_loop w b T i (results, snd (stopLoadTest now l this)) =
           Some (rs, snd (stopLoadTest now l t)) \<and>
         waitForAllConfirmations w rs (snd (stopLoadTest now l t)) =
           snd (stopLoadTest now l (waitForAllConfirmations w rs t))"
    if b: "1 \<le> b"
  proof -
    from dispatch_loop_stopped [OF b, of w T i results this now]
    obtain rs t where r: "dispatch_loop w b T i (results, this) = Some (rs, t)"
      "dispatch_loop w b T i (results, stopped_at now this) = Some (rs, stopped_at now t)"
      by blast
    from dispatch_loop_frame [OF b, of w T i results this] r(1)
    have run: "isRunning t = isRunning this" by auto
    show ?thesis
      using r run
      by (auto simp: stopLoadTest_state waitForAllConfirmations_stopped
          waitForAllConfirmations_frame)
  qed
  then show ?thesis
    by (auto simp: stopLoadTest_state stopped_at_fields) (simp_all add: stopLoadTest_def Let_def)
qed

text \<open>A stop during a run, a stop while idle, and the 25 transactions still dispatched.\<close>

theorem stopLoadTest_cooperative_witness:
  "isRunning ((new_LoadTester example_config None)\<lparr>isRunning := True\<rparr>) \<and>
   \<not> isRunning (snd (stopLoadTest 5000 None
                        ((new_LoadTester example_config None)\<lparr>isRunning := True\<rparr>))) \<and>
   this_endTime (snd (stopLoadTest 5000 None
                        ((new_LoadTester example_config None)\<lparr>isRunning := True\<rparr>))) = 5000 \<and>
   fst (stopLoadTest 5000 None
          ((new_LoadTester example_config None)\<lparr>isRunning := True\<rparr>)) = Inr () \<and>
   \<not> isRunning (new_LoadTester example_config None) \<and>
   stopLoadTest 5000 None (new_LoadTester example_config None) =
     (Inr (), new_LoadTester example_config None) \<and>
   (1::int) \<le> 10 \<and>
   (\<exists>rs t. dispatch_loop example_world 10 25 0
              ([], (new_LoadTester example_config None)\<lparr>isRunning := True\<rparr>) = Some (rs, t) \<and>
      dispatch_loop example_world 10 25 0
        ([], snd (stopLoadTest 5000 None
                    ((new_LoadTester example_config None)\<lparr>isRunning := True\<rparr>))) =
        Some (rs, snd (stopLoadTest 5000 None t)))"
proof -
  let ?running = "(new_LoadTester example_config None)\<lparr>isRunning := True\<rparr>"
  have r: "isRunning ?running" by simp
  have i: "\<not> isRunning (new_LoadTester example_config None)"
    by (simp add: new_LoadTester_def)
  have b: "(1::int) \<le> 10" by simp
  from stopLoadTest_cooperative [of ?running 5000 None 10 example_world 25 0 "[]"] r b
  have "\<not> isRunning (snd (stopLoadTest 5000 None ?running)) \<and>
        this_endTime (snd (stopLoadTest 5000 None ?running)) = 5000 \<and>
        fst (stopLoadTest 5000 None ?running) = Inr () \<and>
        (\<exists>rs t. dispatch_loop example_world 10 25 0 ([], ?running) = Some (rs, t) \<and>
           dispatch_loop example_world 10 25 0 ([], snd (stopLoadTest 5000 None ?running)) =
             Some (rs, snd (stopLoadTest 5000 None t)))"
    by blast
  moreover
  from stopLoadTest_cooperative
    [of "new_LoadTester example_config None" 5000 None 10 example_world 25 0 "[]"] i
  have "stopLoadTest 5000 None (new_LoadTester example_config None) =
          (Inr (), new_LoadTester example_config None)"
    by blast
  ultimately show ?thesis
    using r i b by blast
qed

section \<open>Snapshots and final metrics\<close>

lemma updateTpsSnapshot_ring:
  assumes "ring_is_latest t"
  shows "ring_is_latest (updateTpsSnapshot now t)"
proof -
  let ?L = "length (recorded t)"
  show ?thesis
  proof (cases "?L < 100")
    case True
    then show ?thesis
      using assms by (simp add: ring_is_latest_def updateTpsSnapshot_def Let_def)
  next
    case False
    then have len: "length (tpsSnapshots t) = 100"
      using assms by (simp add: ring_is_latest_def)
    have ne: "drop (?L - 100) (recorded t) \<noteq> []"
      using False by simp
    have e: "?L - 99 = Suc (?L - 100)"
      using False by arith
    have "tl (drop (?L - 100) (recorded t) @ [s]) = drop (Suc (?L - 100)) (recorded t) @ [s]" for s
      using ne by (simp add: drop_Suc tl_drop)
    then show ?thesis
      using assms False len
      by (simp add: ring_is_latest_def updateTpsSnapshot_def Let_def e)
  qed
qed

lemma updateTpsSnapshot_recorded:
  "\<exists>s. recorded (updateTpsSnapshot now t) = recorded t @ [s]"
  by (simp add: updateTpsSnapshot_def Let_def)

lemma interval_callbacks_ring:
  "ring_is_latest t \<Longrightarrow> ring_is_latest (interval_callbacks ticks t)"
proof -
  have "ring_is_latest t \<Longrightarrow> ring_is_latest (foldl (\<lambda>t tick. updateTpsSnapshot tick t) t ticks)"
    by (induction ticks arbitrary: t) (simp_all add: updateTpsSnapshot_ring)
  then show "ring_is_latest t \<Longrightarrow> ring_is_latest (interval_callbacks ticks t)"
    by (simp add: interval_callbacks_def)
qed

lemma interval_callbacks_recorded:
  "\<exists>new. recorded (interval_callbacks ticks t) = recorded t @ new"
proof -
  have "\<exists>new. recorded (foldl (\<lambda>t tick. updateTpsSnapshot tick t) t ticks) = recorded t @ new"
  proof (induction ticks arbitrary: t)
    case Nil
    show ?case by simp
  next
    case (Cons tick ticks)
    from Cons [of "updateTpsSnapshot tick t"] updateTpsSnapshot_recorded [of tick t]
    show ?case by auto
  qed
  then show ?thesis
    by (simp add: interval_callbacks_def)
qed

lemma ring_is_latest_cong:
  "tpsSnapshots t' = tpsSnapshots t \<Longrightarrow> recorded t' = recorded t \<Longrightarrow>
   ring_is_latest t' = ring_is_latest t"
  by (simp add: ring_is_latest_def)

lemma dispatch_batch_ring:
  assumes "dispatch_batch w b T i (results, this) = Some (results', this')"
  shows "(ring_is_latest this \<longrightarrow> ring_is_latest this') \<and>
         (\<exists>new. recorded this' = recorded this @ new)"
proof -
  let ?a = "this\<lparr>transactionSender :=
                    after_draws (ethers_lib w) (or_else (cfg_value (config this)) ''0'')
                      (nat (min b (T - i))) (transactionSender this),
                  calls := calls this @ [SendBatch (min b (T - i))]\<rparr>"
  let ?sent = "interval_callbacks (batch_ticks w i) ?a"
  let ?counted = "?sent\<lparr>metrics := count_batch (min b (T - i))
                     (batch_outcomes w (config this) i (nat (min b (T - i)))) (metrics ?sent)\<rparr>"
  let ?c = "?counted\<lparr>calls := calls ?counted @ [Sleep 100]\<rparr>"
  from assms have t: "this' = (if i + b < T then interval_callbacks (sleep_ticks w i) ?c
                               else ?counted)"
    by (simp add: dispatch_batch_eq Let_def)
  have a: "ring_is_latest ?a = ring_is_latest this" "recorded ?a = recorded this"
    by (simp_all add: ring_is_latest_def)
  have s: "ring_is_latest this \<longrightarrow> ring_is_latest ?sent"
    using interval_callbacks_ring [of ?a "batch_ticks w i"] a by simp
  obtain n1 where n1: "recorded ?sent = recorded this @ n1"
    using interval_callbacks_recorded [of "batch_ticks w i" ?a] a by auto
  have c: "ring_is_latest ?c = ring_is_latest ?sent" "recorded ?c = recorded ?sent"
    "ring_is_latest ?counted = ring_is_latest ?sent" "recorded ?counted = recorded ?sent"
    by (simp_all add: ring_is_latest_def)
  obtain n2 where n2: "recorded (interval_callbacks (sleep_ticks w i) ?c) = recorded ?c @ n2"
    using interval_callbacks_recorded [of "sleep_ticks w i" ?c] by auto
  have p: "ring_is_latest ?sent \<longrightarrow> ring_is_latest (interval_callbacks (sleep_ticks w i) ?c)"
    using interval_callbacks_ring [of ?c "sleep_ticks w i"] c(1) by simp
  show ?thesis
  proof (cases "i + b < T")
    case True
    then have "this' = interval_callbacks (sleep_ticks w i) ?c" using t by simp
    then show ?thesis
      using s p n1 n2 c(2) by simp
  next
    case False
    then have "this' = ?counted" using t by simp
    then show ?thesis
      using s c(3,4) n1 by simp
  qed
qed

lemma dispatch_loop_ring:
  assumes "1 \<le> b"
  shows "\<exists>results' this'. dispatch_loop w b T i (results, this) = Some (results', this') \<and>
           (ring_is_latest this \<longrightarrow> ring_is_latest this') \<and>
           (\<exists>new. recorded this' = recorded this @ new)"
proof -
  let ?Q = "\<lambda>(i::int) (st :: TransactionResult list \<times> LoadTester) out.
      (ring_is_latest (snd st) \<longrightarrow> ring_is_latest (snd out)) \<and>
      (\<exists>new. recorded (snd out) = recorded (snd st) @ new)"
  have "\<exists>out. dispatch_loop w b T i (results, this) = Some out \<and> ?Q i (results, this) out"
  proof (rule dispatch_loop_rule [OF assms, where Q = ?Q])
    fix i st
    show "?Q i st st" by simp
  next
    fix i st st' out
    assume lt: "i < T" and step: "dispatch_batch w b T i st = Some st'" and ih: "?Q (i + b) st' out"
    obtain rs t where st: "st = (rs, t)" by (cases st)
    obtain rs' t' where st': "st' = (rs', t')" by (cases st')
    from dispatch_batch_ring [OF step [unfolded st st']] ih
    show "?Q i st out"
      by (auto simp: st st')
  qed
  then show ?thesis by auto
qed

lemma count_confirmations_averageTPS:
  "averageTPS (foldl count_confirmation m rs) = averageTPS m"
  by (induction rs arbitrary: m) (simp_all add: count_confirmation_def)

lemma waitForAllConfirmations_averageTPS:
  "averageTPS (metrics (waitForAllConfirmations w results t)) = averageTPS (metrics t)"
  by (simp add: waitForAllConfirmations_def Let_def count_confirmations_averageTPS)

lemma fold_max_Max: "fold max xs (a::rat) = Max (insert a (set xs))"
  using Max.set_eq_fold [of a xs] by simp

lemma calculateFinalMetrics_peak:
  "peakTPS (metrics (calculateFinalMetrics w this)) =
     Max (insert 0 (tps ` set (tpsSnapshots this)))"
  by (simp add: calculateFinalMetrics_def Let_def fold_max_Max)

lemma calculateFinalMetrics_average:
  "totalDuration (metrics (calculateFinalMetrics w this)) =
     this_endTime this - this_startTime this"
  "averageTPS (metrics (calculateFinalMetrics w this)) =
     (if 0 < this_endTime this - this_startTime this
      then rat_of_int (successfulTransactions (metrics this) * 1000) /
           rat_of_int (this_endTime this - this_startTime this)
      else averageTPS (metrics this))"
  by (simp_all add: calculateFinalMetrics_def Let_def)

text \<open>The state that \<open>startLoadTest\<close> hands to \<open>calculateFinalMetrics\<close>.\<close>

lemma startLoadTest_final:
  assumes "\<not> isRunning this" and "1 \<le> concurrency (config this)"
  shows "\<exists>outcome ended.
           startLoadTest w this = Some (outcome, calculateFinalMetrics w ended) \<and>
           this_startTime ended = start_clock w \<and> this_endTime ended = end_clock w \<and>
           averageTPS (metrics ended) = averageTPS (metrics this) \<and>
           (ring_is_latest this \<longrightarrow> ring_is_latest ended) \<and>
           (\<exists>new. recorded ended = recorded this @ new)"
proof -
  let ?monitored = "this\<lparr>isRunning := True, this_startTime := start_clock w,
                        metrics := (metrics this)\<lparr>startTime := start_clock w\<rparr>,
                        monitoringInterval := realTimeStats (options this)\<rparr>"
  have b: "1 \<le> concurrency (config ?monitored)"
    using assms(2) by simp
  from dispatch_loop_ring [OF b, of w "transactionCount (config ?monitored)" 0 "[]" ?monitored]
  obtain results dispatched
    where run: "executeConcurrentTransactions w ?monitored = Some (results, dispatched)"
      and ring: "ring_is_latest ?monitored \<longrightarrow> ring_is_latest dispatched"
      and new: "\<exists>new. recorded dispatched = recorded ?monitored @ new"
    by (auto simp: executeConcurrentTransactions_def)
  from dispatch_loop_frame [OF b, of w "transactionCount (config ?monitored)" 0 "[]" ?monitored]
    run
  have fr: "this_startTime dispatched = start_clock w"
    "averageTPS (metrics dispatched) = averageTPS (metrics this)"
    by (auto simp: executeConcurrentTransactions_def)
  let ?confirmed = "waitForAllConfirmations w results (dispatched\<lparr>monitoringInterval := False\<rparr>)"
  let ?ended = "?confirmed\<lparr>this_endTime := end_clock w,
                   metrics := (metrics ?confirmed)\<lparr>endTime := end_clock w\<rparr>,
                   isRunning := False\<rparr>"
  have m: "ring_is_latest ?monitored = ring_is_latest this"
    by (simp add: ring_is_latest_def)
  have e: "ring_is_latest ?ended = ring_is_latest dispatched" "recorded ?ended = recorded dispatched"
    by (simp_all add: ring_is_latest_def waitForAllConfirmations_frame)
  have "startLoadTest w this =
          Some (case completed_listeners w of
                  None \<Rightarrow> Inr (metrics (calculateFinalMetrics w ?ended))
                | Some e \<Rightarrow> Inl e, calculateFinalMetrics w ?ended)"
    by (rule startLoadTest_unfold [OF assms(1) run])
  moreover have "this_startTime ?ended = start_clock w" "this_endTime ?ended = end_clock w"
    by (simp_all add: waitForAllConfirmations_frame fr)
  moreover have "averageTPS (metrics ?ended) = averageTPS (metrics this)"
    by (simp add: waitForAllConfirmations_averageTPS fr)
  ultimately show ?thesis
    using ring new m e by auto
qed

lemma dispatch_single: "dispatch_loop w 1 1 0 st = dispatch_batch w 1 1 0 st"
proof (cases "dispatch_batch w 1 1 0 st")
  case None
  then show ?thesis by (subst dispatch_loop.simps) simp
next
  case (Some st')
  have "dispatch_loop w 1 1 (0 + 1) st' = Some st'"
    by (subst dispatch_loop.simps) simp
  then show ?thesis
    using Some by (subst dispatch_loop.simps) simp
qed

lemma updateTpsSnapshot_pushes:
  "recorded (updateTpsSnapshot now t) = recorded t @ [snapshot_at t now]"
  by (simp add: updateTpsSnapshot_def snapshot_at_def Let_def)

lemma snapshot_at_cong:
  "this_startTime t' = this_startTime t \<Longrightarrow> metrics t' = metrics t \<Longrightarrow>
   snapshot_at t' = snapshot_at t"
  by (rule ext) (simp add: snapshot_at_def)

lemma snapshot_at_sent:
  "snapshot_at (t\<lparr>transactionSender := a, calls := c\<rparr>) now = snapshot_at t now"
  by (simp add: snapshot_at_def)

lemma interval_callbacks_pushes:
  assumes "monitoringInterval t"
  shows "recorded (interval_callbacks ticks t) = recorded t @ map (snapshot_at t) ticks"
proof -
  have "recorded (foldl (\<lambda>t tick. updateTpsSnapshot tick t) t ticks) =
        recorded t @ map (snapshot_at t) ticks"
  proof (induction ticks arbitrary: t)
    case Nil
    show ?case by simp
  next
    case (Cons tick ticks)
    have "snapshot_at (updateTpsSnapshot tick t) = snapshot_at t"
      by (rule snapshot_at_cong) (simp_all add: updateTpsSnapshot_frame)
    then show ?case
      using Cons [of "updateTpsSnapshot tick t"] by (simp add: updateTpsSnapshot_pushes)
  qed
  then show ?thesis
    using assms by (simp add: interval_callbacks_def)
qed

lemma interval_callbacks_idle:
  "\<not> monitoringInterval t \<Longrightarrow> interval_callbacks ticks t = t"
  by (simp add: interval_callbacks_def)

lemma interval_callbacks_none: "interval_callbacks [] t = t"
  by (simp add: interval_callbacks_def)

text \<open>A run of a tester configured for one transfer.\<close>

lemma single_dispatch:
  assumes "transactionCount (config this) = 1" and "concurrency (config this) = 1"
  shows "\<exists>dispatched.
           executeConcurrentTransactions w this =
             Some ([send_outcome w (config this) 0 0], dispatched) \<and>
           metrics dispatched =
             count_batch 1 [send_outcome w (config this) 0 0] (metrics this) \<and>
           config dispatched = config this \<and> options dispatched = options this \<and>
           this_startTime dispatched = this_startTime this \<and>
           (ring_is_latest this \<longrightarrow> ring_is_latest dispatched) \<and>
           recorded dispatched =
             recorded this @
             (if monitoringInterval this then map (snapshot_at this) (batch_ticks w 0) else [])"
proof -
  let ?a = "this\<lparr>transactionSender :=
                    after_draws (ethers_lib w) (or_else (cfg_value (config this)) ''0'')
                      (nat (min 1 (1 - 0))) (transactionSender this),
                  calls := calls this @ [SendBatch (min 1 (1 - 0))]\<rparr>"
  obtain st' where st': "dispatch_batch w 1 1 0 ([], this) = Some st'"
    using dispatch_batch_Some by blast
  obtain rs d where rd: "st' = (rs, d)" by (cases st')
  note f = dispatch_batch_fields [OF st' [unfolded rd]]
  have run: "executeConcurrentTransactions w this = Some (rs, d)"
    using st' rd by (simp add: executeConcurrentTransactions_def assms dispatch_single)
  have rs: "rs = [send_outcome w (config this) 0 0]"
    using f(1) by (simp add: batch_outcomes_def)
  have m: "metrics d = count_batch 1 [send_outcome w (config this) 0 0] (metrics this)"
    using f(9) by (simp add: batch_outcomes_def)
  have ring: "ring_is_latest this \<longrightarrow> ring_is_latest d"
    using dispatch_batch_ring [OF st' [unfolded rd]] by simp
  have d: "d = (interval_callbacks (batch_ticks w 0) ?a)
                 \<lparr>metrics := count_batch (min 1 (1 - 0))
                    (batch_outcomes w (config this) 0 (nat (min 1 (1 - 0))))
                    (metrics (interval_callbacks (batch_ticks w 0) ?a))\<rparr>"
    using st' rd by (auto simp: dispatch_batch_eq Let_def)
  have "recorded d = recorded (interval_callbacks (batch_ticks w 0) ?a)"
    by (subst d) simp
  also have "\<dots> = recorded this @
      (if monitoringInterval this then map (snapshot_at this) (batch_ticks w 0) else [])"
  proof (cases "monitoringInterval this")
    case True
    then have "monitoringInterval ?a" by simp
    from interval_callbacks_pushes [OF this, of "batch_ticks w 0"] True
    show ?thesis by (simp add: snapshot_at_sent)
  next
    case False
    then have "\<not> monitoringInterval ?a" by simp
    from interval_callbacks_idle [OF this, of "batch_ticks w 0"] False
    show ?thesis by simp
  qed
  finally show ?thesis
    using run rs m ring f(2,3,5) by simp
qed

lemma single_run:
  fixes w this
  defines "r \<equiv> send_outcome w (config this) 0 0"
  defines "conf \<equiv> waitForConfirmation (ethers_lib w) (wait_envs w 0) (hash r) 1
                     (confirmation_timeout (config this))"
  assumes idle: "\<not> isRunning this"
    and N: "transactionCount (config this) = 1" and c: "concurrency (config this) = 1"
  shows "\<exists>outcome final.
     startLoadTest w this = Some (outcome, final) \<and>
     successfulTransactions (metrics final) =
       successfulTransactions (metrics this) +
       (if status r = Pending \<and> status conf = Success then 1 else 0) \<and>
     totalDuration (metrics final) = end_clock w - start_clock w \<and>
     averageTPS (metrics final) =
       (if 0 < end_clock w - start_clock w
        then rat_of_int (successfulTransactions (metrics final) * 1000) /
             rat_of_int (end_clock w - start_clock w)
        else averageTPS (metrics this)) \<and>
     recorded final =
       recorded this @
       (if realTimeStats (options this)
        then map (snapshot_at (this\<lparr>this_startTime := start_clock w\<rparr>)) (batch_ticks w 0)
        else []) \<and>
     (ring_is_latest this \<longrightarrow> ring_is_latest final) \<and>
     peakTPS (metrics final) = Max (insert 0 (tps ` set (tpsSnapshots final))) \<and>
     config final = config this \<and> options final = options this \<and> \<not> isRunning final"
proof -
  let ?m = "this\<lparr>isRunning := True, this_startTime := start_clock w,
                 metrics := (metrics this)\<lparr>startTime := start_clock w\<rparr>,
                 monitoringInterval := realTimeStats (options this)\<rparr>"
  have Nm: "transactionCount (config ?m) = 1" "concurrency (config ?m) = 1"
    using N c by simp_all
  from single_dispatch [OF Nm, of w]
  obtain d where run: "executeConcurrentTransactions w ?m = Some ([r], d)"
    and md: "metrics d = count_batch 1 [r] (metrics ?m)"
    and fr: "config d = config this" "options d = options this"
      "this_startTime d = start_clock w"
    and ring: "ring_is_latest ?m \<longrightarrow> ring_is_latest d"
    and rec: "recorded d = recorded ?m @
        (if monitoringInterval ?m then map (snapshot_at ?m) (batch_ticks w 0) else [])"
    by (auto simp: r_def)
  let ?confirmed = "waitForAllConfirmations w [r] (d\<lparr>monitoringInterval := False\<rparr>)"
  let ?ended = "?confirmed\<lparr>this_endTime := end_clock w,
                   metrics := (metrics ?confirmed)\<lparr>endTime := end_clock w\<rparr>,
                   isRunning := False\<rparr>"
  note start = startLoadTest_unfold [OF idle run]
  have succ_c: "successfulTransactions (metrics ?confirmed) =
      successfulTransactions (metrics this) +
      (if status r = Pending \<and> status conf = Success then 1 else 0)"
    by (simp add: waitForAllConfirmations_def Let_def md count_batch_def
        waitForBatchConfirmations_def count_confirmation_def conf_def fr)
  have avg_c: "averageTPS (metrics ?confirmed) = averageTPS (metrics this)"
    by (simp add: waitForAllConfirmations_averageTPS md count_batch_def)
  have st: "this_startTime ?ended = start_clock w" "this_endTime ?ended = end_clock w"
    by (simp_all add: waitForAllConfirmations_frame fr)
  have "successfulTransactions (metrics (calculateFinalMetrics w ?ended)) =
      successfulTransactions (metrics this) +
      (if status r = Pending \<and> status conf = Success then 1 else 0)"
    using succ_c by (simp add: calculateFinalMetrics_counters)
  moreover have "totalDuration (metrics (calculateFinalMetrics w ?ended)) =
      end_clock w - start_clock w"
    by (simp only: calculateFinalMetrics_average st)
  moreover have "averageTPS (metrics (calculateFinalMetrics w ?ended)) =
       (if 0 < end_clock w - start_clock w
        then rat_of_int (successfulTransactions (metrics (calculateFinalMetrics w ?ended)) * 1000) /
             rat_of_int (end_clock w - start_clock w)
        else averageTPS (metrics this))"
    using avg_c by (simp only: calculateFinalMetrics_average calculateFinalMetrics_counters st) simp
  moreover have "recorded (calculateFinalMetrics w ?ended) =
       recorded this @
       (if realTimeStats (options this)
        then map (snapshot_at (this\<lparr>this_startTime := start_clock w\<rparr>)) (batch_ticks w 0)
        else [])"
    using rec by (simp add: calculateFinalMetrics_frame waitForAllConfirmations_frame
        snapshot_at_def)
  moreover have "ring_is_latest this \<longrightarrow> ring_is_latest (calculateFinalMetrics w ?ended)"
    using ring
    by (simp add: ring_is_latest_def calculateFinalMetrics_frame waitForAllConfirmations_frame)
  moreover have "peakTPS (metrics (calculateFinalMetrics w ?ended)) =
      Max (insert 0 (tps ` set (tpsSnapshots (calculateFinalMetrics w ?ended))))"
    by (simp only: calculateFinalMetrics_peak calculateFinalMetrics_frame)
  moreover have "config (calculateFinalMetrics w ?ended) = config this"
    "options (calculateFinalMetrics w ?ended) = options this"
    "\<not> isRunning (calculateFinalMetrics w ?ended)"
    by (simp_all add: calculateFinalMetrics_frame waitForAllConfirmations_frame fr
        calculateFinalMetrics_def Let_def waitForAllConfirmations_def)
  ultimately show ?thesis
    unfolding start by blast
qed

section \<open>The runs of the single-transfer tester\<close>

lemma quick_outcome:
  "send_outcome quick_world single_config 0 0 =
     \<lparr>hash = ''0xa1'', status = Pending, timestamp = 1000, gasUsed = None,
      gasPrice = Some ''20.0'', error = None, confirmationTime = None, blockNumber = None,
      blockHash = None\<rparr>"
  by (simp add: send_outcome_def sendTransaction_def sendTransaction_try_def quick_world_def
      single_config_def plain_ethers_def parse_digits_def truthy_def or_else_def
      gasLimit_or_default_def send_pending_def or_zero_def render_gwei_def decimal.simps)

lemma slow_outcome:
  "status (send_outcome slow_world single_config 0 0) = Pending \<and>
   hash (send_outcome slow_world single_config 0 0) = ''0xa2''"
  by (simp add: send_outcome_def sendTransaction_def sendTransaction_try_def slow_world_def
      single_config_def plain_ethers_def parse_digits_def truthy_def or_else_def
      gasLimit_or_default_def send_pending_def)

lemma refused_outcome:
  "status (send_outcome refusing_world single_config 0 0) = Failed"
  by (simp add: send_outcome_def sendTransaction_def sendTransaction_try_def refusing_world_def
      single_config_def plain_ethers_def parse_digits_def truthy_def or_else_def
      gasLimit_or_default_def send_failed_def)

lemma mined_confirmation:
  "status (waitForConfirmation lib
             \<lparr>we_start = a, we_receipt = (\<lambda>confirmations timeout. Inr (Some mined)), we_end = b\<rparr>
             h c t) = Success"
  by (simp add: waitForConfirmation_def receipt_status_def mined_def)

text \<open>The first run of the single-transfer tester, in \<open>quick_world\<close>.\<close>

lemma quick_run:
  "\<exists>outcome t. startLoadTest quick_world (new_LoadTester single_config None) = Some (outcome, t) \<and>
     successfulTransactions (metrics t) = 1 \<and> averageTPS (metrics t) = 1 \<and>
     recorded t = [] \<and> ring_is_latest t \<and> \<not> isRunning t \<and> config t = single_config \<and>
     realTimeStats (options t)"
proof -
  let ?t0 = "new_LoadTester single_config None"
  have h: "\<not> isRunning ?t0" "transactionCount (config ?t0) = 1" "concurrency (config ?t0) = 1"
    by (simp_all add: new_LoadTester_def single_config_def)
  have c: "config ?t0 = single_config" "successfulTransactions (metrics ?t0) = 0"
    "recorded ?t0 = []" "ring_is_latest ?t0" "realTimeStats (options ?t0)"
    by (simp_all add: new_LoadTester_def createInitialMetrics_def ring_is_latest_def)
  have w: "wait_envs quick_world 0 =
      \<lparr>we_start = 1100, we_receipt = (\<lambda>confirmations timeout. Inr (Some mined)), we_end = 2000\<rparr>"
    "end_clock quick_world - start_clock quick_world = 1000" "batch_ticks quick_world 0 = []"
    by (simp_all add: quick_world_def)
  from single_run [OF h, of quick_world]
  obtain outcome final where
    "startLoadTest quick_world ?t0 = Some (outcome, final)"
    "successfulTransactions (metrics final) = 1"
    "averageTPS (metrics final) = rat_of_int (successfulTransactions (metrics final))"
    "recorded final = []" "ring_is_latest final" "\<not> isRunning final"
    "config final = single_config" "options final = options ?t0"
    by (auto simp: c w quick_outcome mined_confirmation)
  then show ?thesis
    using c(5) by auto
qed

section \<open>Claims about the final metrics\<close>




text \<open>
  Claim C6, as the code has it.  \<open>calculateFinalMetrics\<close> sets \<open>totalDuration\<close> to
  \<open>endTime - startTime\<close>.  When that is positive it sets \<open>averageTPS\<close> to
  \<open>successfulTransactions * 1000 / totalDuration\<close>; otherwise the assignment is guarded
  out and \<open>averageTPS\<close> keeps the value it had.  At the end of \<open>startLoadTest\<close> the
  duration is the difference of the two clock readings of the run.
\<close>

theorem averageTPS_guarded_by_duration:
  "totalDuration (metrics (calculateFinalMetrics w this)) =
     this_endTime this - this_startTime this \<and>
   (0 < this_endTime this - this_startTime this \<longrightarrow>
      averageTPS (metrics (calculateFinalMetrics w this)) =
        rat_of_int (successfulTransactions (metrics (calculateFinalMetrics w this)) * 1000) /
        rat_of_int (totalDuration (metrics (calculateFinalMetrics w this)))) \<and>
   (this_endTime this - this_startTime this \<le> 0 \<longrightarrow>
      averageTPS (metrics (calculateFinalMetrics w this)) = averageTPS (metrics this)) \<and>
   (\<not> isRunning this \<and> 1 \<le> concurrency (config this) \<longrightarrow>
      (\<exists>outcome final.
         startLoadTest w this = Some (outcome, final) \<and>
         totalDuration (metrics final) = end_clock w - start_clock w \<and>
         (0 < end_clock w - start_clock w \<longrightarrow>
            averageTPS (metrics final) =
              rat_of_int (successfulTransactions (metrics final) * 1000) /
              rat_of_int (totalDuration (metrics final))) \<and>
         (end_clock w - start_clock w \<le> 0 \<longrightarrow>
            averageTPS (metrics final) = averageTPS (metrics this))))"
proof -
  have run: "\<exists>outcome final.
         startLoadTest w this = Some (outcome, final) \<and>
         totalDuration (metrics final) = end_clock w - start_clock w \<and>
         (0 < end_clock w - start_clock w \<longrightarrow>
            averageTPS (metrics final) =
              rat_of_int (successfulTransactions (metrics final) * 1000) /
              rat_of_int (totalDuration (metrics final))) \<and>
         (end_clock w - start_clock w \<le> 0 \<longrightarrow>
            averageTPS (metrics final) = averageTPS (metrics this))"
    if h: "\<not> isRunning this" "1 \<le> concurrency (config this)"
  proof -
    from startLoadTest_final [OF h, of w]
    obtain outcome ended where e:
      "startLoadTest w this = Some (outcome, calculateFinalMetrics w ended)"
      "this_startTime ended = start_clock w" "this_endTime ended = end_clock w"
      "averageTPS (metrics ended) = averageTPS (metrics this)"
      by blast
    show ?thesis
      unfolding e(1)
      by (simp add: calculateFinalMetrics_average calculateFinalMetrics_counters e(2,3,4))
  qed
  show ?thesis
    using run
    by (simp add: calculateFinalMetrics_average calculateFinalMetrics_counters)
qed

text \<open>The example run lasts 12500 ms.\<close>

theorem averageTPS_guarded_by_duration_witness:
  "\<not> isRunning (new_LoadTester example_config None) \<and>
   1 \<le> concurrency (config (new_LoadTester example_config None)) \<and>
   0 < end_clock example_world - start_clock example_world \<and>
   (\<exists>outcome final.
      startLoadTest example_world (new_LoadTester example_config None) = Some (outcome, final) \<and>
      totalDuration (metrics final) = 12500 \<and>
      averageTPS (metrics final) =
        rat_of_int (successfulTransactions (metrics final) * 1000) / 12500)"
proof -
  let ?t = "new_LoadTester example_config None"
  have h: "\<not> isRunning ?t" "1 \<le> concurrency (config ?t)"
    by (simp_all add: new_LoadTester_def example_config_def)
  have d: "end_clock example_world - start_clock example_world = 12500"
    by (simp add: example_world_def)
  from averageTPS_guarded_by_duration [of example_world ?t] h d
  have "\<exists>outcome final.
      startLoadTest example_world ?t = Some (outcome, final) \<and>
      totalDuration (metrics final) = 12500 \<and>
      averageTPS (metrics final) =
        rat_of_int (successfulTransactions (metrics final) * 1000) / 12500"
    by auto
  then show ?thesis
    using h d by simp
qed

text \<open>
  Claim C6 as stated sets \<open>averageTPS\<close> to the quotient at every run end.  A tester that
  has confirmed one transfer in a run of one second (\<open>averageTPS = 1\<close>) is started again;
  the transmission is refused at once and the run ends in the millisecond it began.
  \<open>totalDuration\<close> is zero, one transaction is counted as successful, and \<open>averageTPS\<close>
  is still 1, the value of the run before.
\<close>

theorem averageTPS_stale_after_instant_run:
  "\<exists>outcome1 after1 outcome2 after2.
     startLoadTest quick_world (new_LoadTester single_config None) = Some (outcome1, after1) \<and>
     startLoadTest refusing_world after1 = Some (outcome2, after2) \<and>
     totalDuration (metrics after2) = 0 \<and>
     successfulTransactions (metrics after2) = 1 \<and>
     averageTPS (metrics after2) = 1 \<and>
     averageTPS (metrics after2) \<noteq>
       rat_of_int (successfulTransactions (metrics after2) * 1000) /
       rat_of_int (totalDuration (metrics after2))"
proof -
  from quick_run obtain outcome1 t1 where
    r1: "startLoadTest quick_world (new_LoadTester single_config None) = Some (outcome1, t1)"
    and t1: "successfulTransactions (metrics t1) = 1" "averageTPS (metrics t1) = 1"
      "\<not> isRunning t1" "config t1 = single_config"
    by blast
  have h: "transactionCount (config t1) = 1" "concurrency (config t1) = 1"
    by (simp_all add: t1(4) single_config_def)
  have w: "end_clock refusing_world - start_clock refusing_world = 0"
    by (simp add: refusing_world_def)
  from single_run [OF t1(3) h, of refusing_world]
  obtain outcome2 t2 where
    r2: "startLoadTest refusing_world t1 = Some (outcome2, t2)"
    and t2: "successfulTransactions (metrics t2) = 1" "totalDuration (metrics t2) = 0"
      "averageTPS (metrics t2) = 1"
    by (auto simp: t1 w refused_outcome)
  show ?thesis
    using r1 r2 t2 by simp
qed

end
